theory Spec2Isabelle
  imports Complex_Main "HOL-Library.AList"
begin

section \<open>Column types, columns and exceptions\<close>

text \<open>
  The closed set of property types, named by the \<open>type\<close> discriminator each variant
  class of \<open>props.py\<close> declares.
\<close>

datatype PropertyType =
    T_title | T_rich_text | T_number | T_checkbox | T_date | T_status | T_select
  | T_multi_select | T_people | T_url | T_email | T_phone_number | T_files | T_formula
  | T_relation | T_rollup | T_created_time | T_created_by | T_last_edited_time
  | T_last_edited_by

text \<open>
  A \<open>Column\<close> of a schema: the server-side column name, the type of the column, and the
  name of the schema attribute that holds it.
\<close>

record Column =
  col_name :: string
  col_type :: PropertyType
  attr_name :: string

text \<open>
  Every exception class that the modelled code raises, or that a Python built-in raises
  on its behalf, is a constructor. The built-in exceptions carry their message.
  \<open>SchemaError\<close> is raised with two messages: one lists the keyword arguments that the
  schema does not define (a set: the source joins a Python set), the other the columns
  added, removed and changed. \<open>ReadOnlyColumnError\<close> carries the column.
\<close>

datatype pyerror =
    ValueError string
  | TypeError string
  | AttributeError string
  | KeyError string
  | IndexError string
  | NotImplementedError
  | SchemaError_kwargs "string set"
  | SchemaError_inconsistent "string list" "string list" "string list"
  | ReadOnlyColumnError Column
  | SessionError string

text \<open>The \<open>Color\<close> enumeration of \<open>obj_api.text\<close>; only its identity matters here.\<close>

datatype Color = Default | Gray | Brown | Orange | Yellow | Green | Blue | Purple | Pink | Red

text \<open>
  The right operand of a comparison or of \<open>in\<close>: \<open>None\<close>, a string, or an instance of
  the class whose method is called.
\<close>

datatype 'p other = Other_None | Other_Str string | Other_Prop 'p

section \<open>props.py: Status and SelectOne\<close>

text \<open>\<open>Status._NestedData\<close>: \<open>name: str = None\<close>, \<open>id\<close>, \<open>color\<close>.\<close>

record NestedData =
  nd_name :: "string option"
  nd_id :: "string option"
  nd_color :: "Color option"

record Status =
  status_id :: "string option"
  status :: "NestedData option"

text \<open>\<open>SelectValue\<close>: \<open>name: str\<close>, \<open>id\<close>, \<open>color\<close>.\<close>

record SelectValue =
  sv_name :: string
  sv_id :: "string option"
  sv_color :: "Color option"

record SelectOne =
  select_id :: "string option"
  select :: "SelectValue option"

definition none_has_no_name :: pyerror where
  "none_has_no_name = AttributeError ''NoneType object has no attribute name''"

text \<open>
  \<open>Status.__eq__\<close>: \<open>None\<close> compares with the emptiness of the property, another
  \<open>Status\<close> by \<open>self.status.name == other.status.name\<close>, anything else with
  \<open>self.status.name\<close>. Reading \<open>.name\<close> of an empty \<open>status\<close> raises.
\<close>

fun Status_eq :: "Status \<Rightarrow> Status other \<Rightarrow> pyerror + bool" where
  "Status_eq self Other_None = Inr (status self = None)"
| "Status_eq self (Other_Prop other) =
     (case status self of
        None \<Rightarrow> Inl none_has_no_name
      | Some s \<Rightarrow>
          (case status other of
             None \<Rightarrow> Inl none_has_no_name
           | Some t \<Rightarrow> Inr (nd_name s = nd_name t)))"
| "Status_eq self (Other_Str x) =
     (case status self of
        None \<Rightarrow> Inl none_has_no_name
      | Some s \<Rightarrow> Inr (nd_name s = Some x))"

text \<open>
  \<open>SelectOne.__eq__\<close> returns \<open>other == self.select.name\<close>. For a string that is string
  equality. For another \<open>SelectOne\<close> Python calls \<open>other.__eq__(self.select.name)\<close>, the
  same method with a string operand, so the string case is defined first.
\<close>

definition SelectOne_eq_str :: "SelectOne \<Rightarrow> string \<Rightarrow> pyerror + bool" where
  "SelectOne_eq_str self x =
     (case select self of
        None \<Rightarrow> Inl none_has_no_name
      | Some s \<Rightarrow> Inr (x = sv_name s))"

fun SelectOne_eq :: "SelectOne \<Rightarrow> SelectOne other \<Rightarrow> pyerror + bool" where
  "SelectOne_eq self Other_None = Inr (select self = None)"
| "SelectOne_eq self (Other_Str x) = SelectOne_eq_str self x"
| "SelectOne_eq self (Other_Prop other) =
     (case select self of
        None \<Rightarrow> Inl none_has_no_name
      | Some s \<Rightarrow> SelectOne_eq_str other (sv_name s))"

section \<open>props.py: MultiSelect\<close>

record MultiSelect =
  multi_select_id :: "string option"
  multi_select :: "SelectValue list"

text \<open>
  \<open>SelectValue[value]\<close> composes \<open>SelectValue(name=value, color=None)\<close>; the id keeps
  its default \<open>None\<close>.
\<close>

definition SelectValue_compose :: "string \<Rightarrow> Color option \<Rightarrow> SelectValue" where
  "SelectValue_compose v c = \<lparr>sv_name = v, sv_id = None, sv_color = c\<rparr>"

text \<open>
  A value handed to a \<open>MultiSelect\<close> is a name or \<open>None\<close> (\<open>string option\<close>).
  \<open>__contains__\<close> returns whether some option has \<open>opt.name == name\<close>; no name equals
  \<open>None\<close>.
\<close>

definition MultiSelect_contains :: "MultiSelect \<Rightarrow> string option \<Rightarrow> bool" where
  "MultiSelect_contains self name = list_ex (\<lambda>opt. Some (sv_name opt) = name) (multi_select self)"

text \<open>
  Methods that mutate \<open>self\<close> return the outcome (\<open>Inl\<close> the exception raised) together
  with the object as the call leaves it, also when it raises.

  \<open>append(*values)\<close>: for each value in turn, \<open>None\<close> raises and a name not yet present
  is appended; a name already present is skipped.
\<close>

fun MultiSelect_append :: "MultiSelect \<Rightarrow> string option list \<Rightarrow> (pyerror + unit) \<times> MultiSelect" where
  "MultiSelect_append self [] = (Inr (), self)"
| "MultiSelect_append self (None # values) = (Inl (ValueError ''None is an invalid value''), self)"
| "MultiSelect_append self (Some v # values) =
     (if \<not> MultiSelect_contains self (Some v)
      then MultiSelect_append
             (self\<lparr>multi_select := multi_select self @ [SelectValue_compose v None]\<rparr>) values
      else MultiSelect_append self values)"

text \<open>\<open>remove(*values)\<close> keeps the options with \<open>opt.name not in values\<close>.\<close>

definition MultiSelect_remove :: "MultiSelect \<Rightarrow> string option list \<Rightarrow> MultiSelect" where
  "MultiSelect_remove self values =
     self\<lparr>multi_select := filter (\<lambda>opt. Some (sv_name opt) \<notin> set values) (multi_select self)\<rparr>"

definition str_of :: "string option \<Rightarrow> string" where
  "str_of v = (case v of None \<Rightarrow> ''None'' | Some s \<Rightarrow> s)"

definition MultiSelect_iadd :: "MultiSelect \<Rightarrow> string option \<Rightarrow> (pyerror + unit) \<times> MultiSelect" where
  "MultiSelect_iadd self other =
     (if MultiSelect_contains self other then (Inl (ValueError (''Duplicate item: '' @ str_of other)), self)
      else MultiSelect_append self [other])"

definition MultiSelect_isub :: "MultiSelect \<Rightarrow> string option \<Rightarrow> (pyerror + unit) \<times> MultiSelect" where
  "MultiSelect_isub self other =
     (if \<not> MultiSelect_contains self other then (Inl (ValueError (''No such item: '' @ str_of other)), self)
      else (Inr (), MultiSelect_remove self [other]))"

section \<open>props.py: Files\<close>

text \<open>
  A \<open>FileObject\<close> of \<open>obj_api.types\<close>, as far as \<open>Files\<close> reads it: its name, and the
  rest of its fields (the URL), which take part in \<open>==\<close>.
\<close>

record FileObject =
  file_name :: string
  file_url :: string

record Files =
  files_id :: "string option"
  files :: "FileObject list"

text \<open>The operand of \<open>in\<close> on a \<open>Files\<close>: a \<open>FileObject\<close> or a name.\<close>

datatype file_operand = By_Object FileObject | By_Name string

text \<open>
  \<open>Files.__contains__\<close>: some entry has \<open>ref == other\<close> or \<open>ref.name == other\<close>. An
  object never equals a string, so each operand kind has one live test.
\<close>

fun Files_contains :: "Files \<Rightarrow> file_operand \<Rightarrow> bool" where
  "Files_contains self (By_Object obj) = list_ex (\<lambda>ref. ref = obj) (files self)"
| "Files_contains self (By_Name n) = list_ex (\<lambda>ref. file_name ref = n) (files self)"

text \<open>Python's \<open>list.remove(x)\<close>: drops the first element equal to \<open>x\<close>, raises when there is none.\<close>

definition list_remove :: "'a list \<Rightarrow> 'a \<Rightarrow> pyerror + 'a list" where
  "list_remove xs x =
     (if x \<in> set xs then Inr (remove1 x xs) else Inl (ValueError ''list.remove(x): x not in list''))"

definition Files_append :: "Files \<Rightarrow> FileObject \<Rightarrow> Files" where
  "Files_append self obj = self\<lparr>files := files self @ [obj]\<rparr>"

definition Files_remove :: "Files \<Rightarrow> FileObject \<Rightarrow> (pyerror + unit) \<times> Files" where
  "Files_remove self obj =
     (case list_remove (files self) obj of
        Inl e \<Rightarrow> (Inl e, self)
      | Inr fs \<Rightarrow> (Inr (), self\<lparr>files := fs\<rparr>))"

definition Files_iadd :: "Files \<Rightarrow> FileObject \<Rightarrow> (pyerror + unit) \<times> Files" where
  "Files_iadd self obj =
     (if Files_contains self (By_Object obj) then (Inl (ValueError (''Item exists: '' @ file_name obj)), self)
      else (Inr (), Files_append self obj))"

definition Files_isub :: "Files \<Rightarrow> FileObject \<Rightarrow> (pyerror + unit) \<times> Files" where
  "Files_isub self obj =
     (if \<not> Files_contains self (By_Object obj) then (Inl (ValueError (''No such item: '' @ file_name obj)), self)
      else Files_remove self obj)"

section \<open>props.py: Relation\<close>

text \<open>
  \<open>types.ObjectReference[page]\<close> is the reference holding the id of the page; a page is
  given here by that id.
\<close>

record ObjectReference =
  ref_id :: string

definition ObjectReference_compose :: "string \<Rightarrow> ObjectReference" where
  "ObjectReference_compose page = \<lparr>ref_id = page\<rparr>"

record Relation =
  relation_id :: "string option"
  relation :: "ObjectReference list"
  has_more :: bool

definition Relation_contains :: "Relation \<Rightarrow> string \<Rightarrow> bool" where
  "Relation_contains self page = (ObjectReference_compose page \<in> set (relation self))"

definition Relation_iadd :: "Relation \<Rightarrow> string \<Rightarrow> (pyerror + unit) \<times> Relation" where
  "Relation_iadd self page =
     (let ref = ObjectReference_compose page in
      if ref \<in> set (relation self) then (Inl (ValueError (''Duplicate item: '' @ ref_id ref)), self)
      else (Inr (), self\<lparr>relation := relation self @ [ref]\<rparr>))"

text \<open>
  \<open>Relation.__isub__\<close> raises \<open>No such item\<close> when \<open>ref in self.relation\<close>, and calls
  \<open>self.relation.remove(ref)\<close> otherwise.
\<close>

definition Relation_isub :: "Relation \<Rightarrow> string \<Rightarrow> (pyerror + unit) \<times> Relation" where
  "Relation_isub self page =
     (let ref = ObjectReference_compose page in
      if ref \<in> set (relation self) then (Inl (ValueError (''No such item: '' @ ref_id ref)), self)
      else (case list_remove (relation self) ref of
              Inl e \<Rightarrow> (Inl e, self)
            | Inr rs \<Rightarrow> (Inr (), self\<lparr>relation := rs\<rparr>)))"

section \<open>props.py: NativeTypeMixin and the variants it serves unchanged\<close>

text \<open>A native Python scalar: \<open>None\<close>, a string, a number or a boolean.\<close>

datatype native = N_None | N_Str string | N_Num rat | N_Bool bool





section \<open>props.py: Title and RichText\<close>

text \<open>
  \<open>Title\<close> holds a list of rich-text objects (type \<open>'r\<close>). Its two methods go through
  \<open>rich_text\<close> and \<open>plain_text\<close> of \<open>obj_api.text\<close>, which are parameters here:
  \<open>rich_text\<close> turns the text elements given into rich-text objects and may raise,
  \<open>plain_text\<close> renders a list of them. The field annotation excludes \<open>None\<close>, so the
  \<open>is None\<close> branch of \<open>Value\<close> is not reached. The \<open>RichText\<close> property has the same
  two methods over its \<open>rich_text\<close> field.
\<close>

record 'r Title =
  title_id :: "string option"
  title :: "'r list"






section \<open>props.py: composing and reading Status and SelectOne\<close>






section \<open>props.py: Number\<close>

text \<open>
  The value of a Python number is a rational here. \<open>Number\<close> composes through the
  mixin, \<open>Number(number=value)\<close>, and overrides \<open>Value\<close> to return the field. The
  constructor validates the value against \<open>float | int | None\<close>; what it stores for a
  value (a float may be a rounded one), or the exception it raises, is the parameter
  \<open>number_field\<close>.
\<close>

record Number =
  number_id :: "string option"
  number :: "rat option"

definition Number_compose :: "(rat option \<Rightarrow> pyerror + rat option) \<Rightarrow> rat option \<Rightarrow> pyerror + Number" where
  "Number_compose number_field value =
     (case number_field value of
        Inl e \<Rightarrow> Inl e
      | Inr stored \<Rightarrow> Inr \<lparr>number_id = None, number = stored\<rparr>)"

definition Number_Value :: "Number \<Rightarrow> rat option" where
  "Number_Value self = number self"

definition Number_float :: "Number \<Rightarrow> pyerror + rat" where
  "Number_float self =
     (case number self of
        None \<Rightarrow> Inl (ValueError ''Cannot convert None to float'')
      | Some x \<Rightarrow> Inr x)"

text \<open>\<open>int(x)\<close> on a number truncates towards zero.\<close>

definition Number_int :: "Number \<Rightarrow> pyerror + int" where
  "Number_int self =
     (case number self of
        None \<Rightarrow> Inl (ValueError ''Cannot convert None to int'')
      | Some x \<Rightarrow> Inr (if x < 0 then \<lceil>x\<rceil> else \<lfloor>x\<rfloor>))"

text \<open>
  A binary arithmetic operator of Python on two values that are each a number or
  \<open>None\<close>: \<open>None\<close> supports no arithmetic, so either operand being \<open>None\<close> raises
  \<open>TypeError\<close>.
\<close>

definition py_arith :: "string \<Rightarrow> (rat \<Rightarrow> rat \<Rightarrow> rat) \<Rightarrow> rat option \<Rightarrow> rat option \<Rightarrow> pyerror + rat" where
  "py_arith opname f a b =
     (case a of
        None \<Rightarrow> Inl (TypeError (''unsupported operand type(s) for '' @ opname))
      | Some x \<Rightarrow>
          (case b of
             None \<Rightarrow> Inl (TypeError (''unsupported operand type(s) for '' @ opname))
           | Some y \<Rightarrow> Inr (f x y)))"

text \<open>The other operand of an operator on a \<open>Number\<close>: a native value or a \<open>Number\<close>.\<close>

datatype number_operand = Op_Value "rat option" | Op_Number Number

definition Number_iadd :: "Number \<Rightarrow> number_operand \<Rightarrow> (pyerror + unit) \<times> Number" where
  "Number_iadd self other =
     (case py_arith ''+='' (+) (number self)
             (case other of Op_Number n \<Rightarrow> Number_Value n | Op_Value v \<Rightarrow> v) of
        Inl e \<Rightarrow> (Inl e, self)
      | Inr r \<Rightarrow> (Inr (), self\<lparr>number := Some r\<rparr>))"

definition Number_isub :: "Number \<Rightarrow> number_operand \<Rightarrow> (pyerror + unit) \<times> Number" where
  "Number_isub self other =
     (case py_arith ''-='' (-) (number self)
             (case other of Op_Number n \<Rightarrow> Number_Value n | Op_Value v \<Rightarrow> v) of
        Inl e \<Rightarrow> (Inl e, self)
      | Inr r \<Rightarrow> (Inr (), self\<lparr>number := Some r\<rparr>))"

text \<open>
  \<open>__add__\<close> returns \<open>Number[other + self.Value]\<close>. For a native \<open>other\<close> that is Python's
  addition. For a \<open>Number\<close>, \<open>other + self.Value\<close> is \<open>other.__add__(self.Value)\<close>, that
  is \<open>Number[self.Value + other.Value]\<close>, and the outer \<open>Number[...]\<close> then receives a
  \<open>Number\<close>: what the constructor makes of it is the parameter \<open>wrap\<close>. Each
  \<open>Number[...]\<close> of a native result goes through \<open>Number_compose\<close>.
  \<open>__mul__\<close> has the same shape.
\<close>

definition Number_add ::
  "(Number \<Rightarrow> pyerror + Number) \<Rightarrow> (rat option \<Rightarrow> pyerror + rat option) \<Rightarrow> Number \<Rightarrow> number_operand
     \<Rightarrow> pyerror + Number" where
  "Number_add wrap number_field self other =
     (case other of
        Op_Value v \<Rightarrow>
          (case py_arith ''+'' (+) v (Number_Value self) of
             Inl e \<Rightarrow> Inl e
           | Inr r \<Rightarrow> Number_compose number_field (Some r))
      | Op_Number n \<Rightarrow>
          (case py_arith ''+'' (+) (Number_Value self) (Number_Value n) of
             Inl e \<Rightarrow> Inl e
           | Inr r \<Rightarrow>
               (case Number_compose number_field (Some r) of
                  Inl e \<Rightarrow> Inl e
                | Inr inner \<Rightarrow> wrap inner)))"

definition Number_mul ::
  "(Number \<Rightarrow> pyerror + Number) \<Rightarrow> (rat option \<Rightarrow> pyerror + rat option) \<Rightarrow> Number \<Rightarrow> number_operand
     \<Rightarrow> pyerror + Number" where
  "Number_mul wrap number_field self other =
     (case other of
        Op_Value v \<Rightarrow>
          (case py_arith ''*'' (*) v (Number_Value self) of
             Inl e \<Rightarrow> Inl e
           | Inr r \<Rightarrow> Number_compose number_field (Some r))
      | Op_Number n \<Rightarrow>
          (case py_arith ''*'' (*) (Number_Value self) (Number_Value n) of
             Inl e \<Rightarrow> Inl e
           | Inr r \<Rightarrow>
               (case Number_compose number_field (Some r) of
                  Inl e \<Rightarrow> Inl e
                | Inr inner \<Rightarrow> wrap inner)))"

text \<open>\<open>float(other)\<close>: \<open>TypeError\<close> on \<open>None\<close>, \<open>__float__\<close> on a \<open>Number\<close>.\<close>

definition py_float :: "number_operand \<Rightarrow> pyerror + rat" where
  "py_float other =
     (case other of
        Op_Value None \<Rightarrow> Inl (TypeError ''float() argument must be a string or a real number'')
      | Op_Value (Some x) \<Rightarrow> Inr x
      | Op_Number n \<Rightarrow> Number_float n)"

text \<open>\<open>__sub__\<close> returns \<open>Number[self.Value - float(other)]\<close>.\<close>

definition Number_sub ::
  "(rat option \<Rightarrow> pyerror + rat option) \<Rightarrow> Number \<Rightarrow> number_operand \<Rightarrow> pyerror + Number" where
  "Number_sub number_field self other =
     (case py_float other of
        Inl e \<Rightarrow> Inl e
      | Inr y \<Rightarrow>
          (case py_arith ''-'' (-) (Number_Value self) (Some y) of
             Inl e \<Rightarrow> Inl e
           | Inr r \<Rightarrow> Number_compose number_field (Some r)))"

text \<open>
  \<open>Number\<close> and its bases define no \<open>__truediv__\<close> and no \<open>__rtruediv__\<close>, and no number
  type divides by a \<open>Number\<close>: Python answers \<open>x / y\<close> with a \<open>Number\<close> on either side by
  \<open>TypeError\<close>, whatever the values.
\<close>

definition Number_truediv :: "Number \<Rightarrow> number_operand \<Rightarrow> pyerror + Number" where
  "Number_truediv self other = Inl (TypeError ''unsupported operand type(s) for /'')"

section \<open>props.py: composing, then reading Value\<close>





section \<open>objects.py: RichText\<close>

text \<open>
  A rich-text object of the object API carries its rendered \<open>plain_text\<close>; the link
  stands for the rest of its content. \<open>Text\<close>, \<open>Equation\<close> and \<open>Mention\<close> wrap one
  each, and the user-facing \<open>RichText\<close> is a list of those wrappers.
\<close>

record RichTextObject =
  plain_text :: string
  href :: "string option"

datatype RichTextBase = Text RichTextObject | Equation RichTextObject | Mention RichTextObject

fun obj_ref :: "RichTextBase \<Rightarrow> RichTextObject" where
  "obj_ref (Text r) = r"
| "obj_ref (Equation r) = r"
| "obj_ref (Mention r) = r"

type_synonym RichText = "RichTextBase list"

text \<open>
  \<open>to_plain_text\<close>: \<open>None\<close> for the empty list, otherwise the concatenation of the
  \<open>plain_text\<close> of the wrapped objects that are truthy (\<open>if text\<close>); the truth value of
  an object of the object API is the parameter \<open>truthy\<close>.
\<close>

definition to_plain_text :: "(RichTextObject \<Rightarrow> bool) \<Rightarrow> RichText \<Rightarrow> string option" where
  "to_plain_text truthy self =
     (if self = [] then None
      else Some (concat (map plain_text (filter truthy (map obj_ref self)))))"

definition RichText_str :: "(RichTextObject \<Rightarrow> bool) \<Rightarrow> RichText \<Rightarrow> string" where
  "RichText_str truthy self =
     (case to_plain_text truthy self of
        None \<Rightarrow> []
      | Some p \<Rightarrow> p)"

text \<open>
  \<open>__eq__\<close> against a string, another \<open>RichText\<close> or anything else; the result \<open>None\<close>
  stands for \<open>NotImplemented\<close>.
\<close>

datatype richtext_other = Is_Str string | Is_RichText RichText | Is_Other

fun RichText_eq :: "(RichTextObject \<Rightarrow> bool) \<Rightarrow> RichText \<Rightarrow> richtext_other \<Rightarrow> bool option" where
  "RichText_eq truthy self (Is_Str other) = Some (RichText_str truthy self = other)"
| "RichText_eq truthy self (Is_RichText other) =
     Some (RichText_str truthy self = RichText_str truthy other)"
| "RichText_eq truthy self Is_Other = None"

text \<open>\<open>__hash__\<close> is \<open>hash(str(self))\<close>, with Python's string hash as a parameter.\<close>

definition RichText_hash :: "(string \<Rightarrow> int) \<Rightarrow> (RichTextObject \<Rightarrow> bool) \<Rightarrow> RichText \<Rightarrow> int" where
  "RichText_hash hash truthy self = hash (RichText_str truthy self)"

section \<open>endpoints.py: the transport and the two endpoints\<close>

text \<open>
  The raw client is an external collaborator. Each call made to it is recorded, in
  order, next to the records the module's logger receives (level and message, the
  arguments of the format string left out).
\<close>

datatype ParentRef = PageRef string | DatabaseRef string

record 'j request =
  req_parent :: ParentRef
  req_properties :: "(string \<times> 'j option) list"
  req_children :: "'j list option"

datatype 'j raw_call =
    Blocks_children_append string "'j list"
  | Pages_create "'j request"

datatype log_record = Info string | Warning string

record 'j world =
  calls :: "'j raw_call list"
  log :: "log_record list"

text \<open>The response of \<open>blocks.children.append\<close>: the \<open>results\<close> list, when the key is there.\<close>

record 'j append_data =
  results :: "'j list option"

text \<open>
  What the endpoints need from the rest of the object API and from the raw client:
  \<open>dict()\<close> of a property object (\<open>'o\<close>) and of a block (\<open>'b\<close>), \<open>Title[title]\<close>,
  \<open>block.refresh(**result)\<close>, \<open>ObjectReference[parent].id\<close>, \<open>Page.parse_obj\<close>, and
  the two raw calls, each of which may raise.
\<close>

record ('o, 'b, 'p, 'j) api =
  prop_dict :: "'o \<Rightarrow> 'j"
  block_dict :: "'b \<Rightarrow> 'j"
  title_prop :: "string \<Rightarrow> 'o"
  block_refresh :: "'b \<Rightarrow> 'j \<Rightarrow> pyerror + 'b"
  object_reference_id :: "'p \<Rightarrow> pyerror + string"
  parse_obj :: "'j \<Rightarrow> pyerror + 'j"
  raw_children_append :: "string \<Rightarrow> 'j list \<Rightarrow> pyerror + 'j append_data"
  raw_pages_create :: "'j request \<Rightarrow> pyerror + 'j"

text \<open>
  The refresh loop of \<open>append\<close>, \<open>for idx in range(len(blocks))\<close>, over the blocks and the
  results side by side. A \<open>None\<close> among the blocks has no \<open>refresh\<close>. The blocks come back
  as the loop leaves them.
\<close>

fun refresh_all ::
  "('b \<Rightarrow> 'j \<Rightarrow> pyerror + 'b) \<Rightarrow> 'b option list \<Rightarrow> 'j list \<Rightarrow> (pyerror + unit) \<times> 'b option list" where
  "refresh_all rf [] rs = (Inr (), [])"
| "refresh_all rf (b # bs) [] = (Inl (IndexError ''list index out of range''), b # bs)"
| "refresh_all rf (None # bs) (r # rs) =
     (Inl (AttributeError ''NoneType object has no attribute refresh''), None # bs)"
| "refresh_all rf (Some b # bs) (r # rs) =
     (case rf b r of
        Inl e \<Rightarrow> (Inl e, Some b # bs)
      | Inr b' \<Rightarrow> (case refresh_all rf bs rs of (res, bs') \<Rightarrow> (res, Some b' # bs')))"

text \<open>
  \<open>BlocksEndpoint.ChildrenEndpoint.append(parent, *blocks)\<close>. The children sent are
  the blocks that are not \<open>None\<close>; the size test compares \<open>len(blocks)\<close> with the length
  of the results. The result is the parent, the blocks, and the world.
\<close>

definition append ::
  "('o, 'b, 'p, 'j) api \<Rightarrow> 'p \<Rightarrow> 'b option list \<Rightarrow> 'j world
     \<Rightarrow> (pyerror + 'p) \<times> 'b option list \<times> 'j world" where
  "append api parent blocks w =
     (case object_reference_id api parent of
        Inl e \<Rightarrow> (Inl e, blocks, w)
      | Inr parent_id \<Rightarrow>
          (let children = map (block_dict api) (List.map_filter (\<lambda>b. b) blocks);
               w1 = w\<lparr>log := log w @ [Info ''Appending %d blocks to %s ...''],
                       calls := calls w @ [Blocks_children_append parent_id children]\<rparr>
           in case raw_children_append api parent_id children of
                Inl e \<Rightarrow> (Inl e, blocks, w1)
              | Inr data \<Rightarrow>
                  (case results data of
                     Some rs \<Rightarrow>
                       if length blocks = length rs then
                         (case refresh_all (block_refresh api) blocks rs of
                            (Inl e, blocks') \<Rightarrow> (Inl e, blocks', w1)
                          | (Inr u, blocks') \<Rightarrow> (Inr parent, blocks', w1))
                       else
                         (Inr parent, blocks,
                          w1\<lparr>log := log w1 @ [Warning ''Unable to refresh results; size mismatch'']\<rparr>)
                   | None \<Rightarrow>
                       (Inr parent, blocks,
                        w1\<lparr>log := log w1 @ [Warning ''Unable to refresh results; not provided'']\<rparr>))))"

text \<open>The \<open>parent\<close> argument of \<open>PagesEndpoint.create\<close>, by the tests the method makes.\<close>

datatype parent_arg =
    Parent_None
  | Parent_Page string
  | Parent_Database string
  | Parent_ParentRef ParentRef
  | Parent_Unsupported

text \<open>
  \<open>PagesEndpoint.create(parent, title, properties, children)\<close>. A dictionary is an
  association list with distinct keys, in insertion order; \<open>properties["title"] = ...\<close>
  is \<open>AList.update\<close>. Every property given becomes an entry of the request under its own
  key, \<open>None\<close> for a \<open>None\<close> property.
\<close>

definition pages_create ::
  "('o, 'b, 'p, 'j) api \<Rightarrow> parent_arg \<Rightarrow> string option \<Rightarrow> (string \<times> 'o option) list option
     \<Rightarrow> 'b option list option \<Rightarrow> 'j world \<Rightarrow> (pyerror + 'j) \<times> 'j world" where
  "pages_create api parent title' properties children w =
     (case (case parent of
              Parent_None \<Rightarrow> Inl (ValueError ''parent must be provided'')
            | Parent_Page i \<Rightarrow> Inr (PageRef i)
            | Parent_Database i \<Rightarrow> Inr (DatabaseRef i)
            | Parent_ParentRef r \<Rightarrow> Inr r
            | Parent_Unsupported \<Rightarrow> Inl (ValueError ''Unsupported parent'')) of
        Inl e \<Rightarrow> (Inl e, w)
      | Inr ref \<Rightarrow>
          (let properties1 = (case properties of None \<Rightarrow> [] | Some ps \<Rightarrow> ps);
               properties2 = (case title' of
                                None \<Rightarrow> properties1
                              | Some t \<Rightarrow> AList.update ''title'' (Some (title_prop api t)) properties1);
               request = \<lparr>req_parent = ref,
                          req_properties = map (\<lambda>(name, prop). (name, map_option (prop_dict api) prop)) properties2,
                          req_children = map_option (\<lambda>cs. map (block_dict api) (List.map_filter (\<lambda>c. c) cs)) children\<rparr>;
               w1 = w\<lparr>log := log w @ [Info ''Creating page :: %s => %s''],
                       calls := calls w @ [Pages_create request]\<rparr>
           in case raw_pages_create api request of
                Inl e \<Rightarrow> (Inl e, w1)
              | Inr data \<Rightarrow>
                  (case parse_obj api data of
                     Inl e \<Rightarrow> (Inl e, w1)
                   | Inr page \<Rightarrow> (Inr page, w1))))"

section \<open>database.py: schemas\<close>

text \<open>
  A Python dictionary built from a sequence of items (a comprehension, or repeated
  assignment): a key seen again keeps its place and takes the new value.
\<close>

definition dict_of_items :: "('k \<times> 'v) list \<Rightarrow> ('k \<times> 'v) list" where
  "dict_of_items items = foldl (\<lambda>d (k, v). AList.update k v d) [] items"

text \<open>Equality of two dictionaries: the same keys with equal values, in any order.\<close>

definition dict_eq :: "('k \<times> 'v) list \<Rightarrow> ('k \<times> 'v) list \<Rightarrow> bool" where
  "dict_eq a b =
     (list_all (\<lambda>(k, v). map_of b k = Some v) a \<and> list_all (\<lambda>(k, v). map_of a k = Some v) b)"

text \<open>
  A schema class: the title of its database, its columns in declaration order, and the
  database it is bound to (by id), if any.
\<close>

record PageSchema =
  schema_db_title :: string
  cols :: "Column list"
  bound_db :: "string option"

text \<open>
  Modelled from the spec: \<open>PageSchema.get_cols\<close> of \<open>ultimate_notion.schema\<close>, which is
  not among the sources. A schema is an ordered mapping from column key to display name,
  type and attribute name; \<open>get_cols\<close> lists its columns in that order.
\<close>

definition get_cols :: "PageSchema \<Rightarrow> Column list" where
  "get_cols schema = cols schema"

text \<open>
  Modelled from the spec: \<open>PageSchema.to_dict\<close> of \<open>ultimate_notion.schema\<close>, the
  column-key-to-type mapping that the consistency check and the diff compare.
\<close>

definition to_dict :: "PageSchema \<Rightarrow> (string \<times> PropertyType) list" where
  "to_dict schema = dict_of_items (map (\<lambda>c. (col_name c, col_type c)) (get_cols schema))"

text \<open>
  Modelled from the spec: \<open>PageSchema.is_consistent_with\<close> of \<open>ultimate_notion.schema\<close>.
  It compares the column-key-to-type mappings and ignores attribute names: two schemas
  are consistent iff they have the same column keys with the same types.
\<close>

definition is_consistent_with :: "PageSchema \<Rightarrow> PageSchema \<Rightarrow> bool" where
  "is_consistent_with self other = dict_eq (to_dict self) (to_dict other)"

text \<open>
  Modelled from the spec: \<open>dict_diff_str\<close> of \<open>ultimate_notion.utils\<close>. On a mismatch the
  diff enumerates the added, the removed and the changed columns by key: the keys of the
  second dictionary missing from the first, the keys of the first missing from the
  second, and the keys of both whose values differ. The three enumerations are the three
  slots of the message.
\<close>

definition dict_diff_str ::
  "(string \<times> 'v) list \<Rightarrow> (string \<times> 'v) list \<Rightarrow> string list \<times> string list \<times> string list" where
  "dict_diff_str d1 d2 =
     (map fst (filter (\<lambda>(k, v). map_of d1 k = None) d2),
      map fst (filter (\<lambda>(k, v). map_of d2 k = None) d1),
      map fst (filter (\<lambda>(k, v). case map_of d2 k of None \<Rightarrow> False | Some v' \<Rightarrow> v' \<noteq> v) d1))"

text \<open>
  Modelled from the spec: whether the property-value class of a column type is
  \<open>readonly\<close> (\<open>col.type.prop_value.readonly\<close>, of \<open>ultimate_notion.schema\<close>). The
  read-only variants are formula, rollup and the created/edited metadata.
\<close>

fun readonly :: "PropertyType \<Rightarrow> bool" where
  "readonly T_formula = True"
| "readonly T_rollup = True"
| "readonly T_created_time = True"
| "readonly T_created_by = True"
| "readonly T_last_edited_time = True"
| "readonly T_last_edited_by = True"
| "readonly t = False"

section \<open>database.py: Database\<close>

text \<open>
  The database object: the id, title and column definitions of the wrapped server
  object (each definition already as its column type), and the cached schema
  \<open>_schema\<close>.
\<close>

record Database =
  db_id :: string
  db_title :: "string option"
  db_properties :: "(string \<times> PropertyType) list"
  db_schema :: "PageSchema option"

text \<open>
  Modelled from the spec: \<open>PageSchema.bind_db\<close> of \<open>ultimate_notion.schema\<close> binds the
  schema to the database instance.
\<close>

definition bind_db :: "PageSchema \<Rightarrow> Database \<Rightarrow> PageSchema" where
  "bind_db schema db = schema\<lparr>bound_db := Some (db_id db)\<rparr>"

text \<open>
  \<open>_reflect_schema\<close>: one column per server column, held under the attribute name
  \<open>decapitalize(make_safe_python_name(k))\<close>; the composition of these two functions of
  \<open>ultimate_notion.text\<close> and \<open>ultimate_notion.utils\<close> is the parameter \<open>safe\<close>. The
  attributes are collected in a dictionary, so of two columns with the same attribute
  name the later one stays. The generated class is bound to the database.
\<close>

definition reflect_schema :: "(string \<Rightarrow> string) \<Rightarrow> Database \<Rightarrow> PageSchema" where
  "reflect_schema safe self =
     (let title = (case db_title self of
                     None \<Rightarrow> ''Untitled''
                   | Some t \<Rightarrow> if t = [] then ''Untitled'' else t);
          attrs = dict_of_items
                    (map (\<lambda>(k, v). (safe k, \<lparr>col_name = k, col_type = v, attr_name = safe k\<rparr>))
                       (db_properties self));
          schema = \<lparr>schema_db_title = title, cols = map snd attrs, bound_db = None\<rparr>
      in bind_db schema self)"

text \<open>The \<open>schema\<close> property reflects on first use and caches the result.\<close>

definition Database_schema :: "(string \<Rightarrow> string) \<Rightarrow> Database \<Rightarrow> PageSchema \<times> Database" where
  "Database_schema safe self =
     (case db_schema self of
        None \<Rightarrow> (let s = reflect_schema safe self in (s, self\<lparr>db_schema := Some s\<rparr>))
      | Some s \<Rightarrow> (s, self))"

text \<open>
  The \<open>schema\<close> setter: a consistent schema is bound and cached; otherwise
  \<open>SchemaError\<close> carries the three enumerations of the diff between the current and the
  given schema.
\<close>

definition Database_set_schema ::
  "(string \<Rightarrow> string) \<Rightarrow> Database \<Rightarrow> PageSchema \<Rightarrow> (pyerror + unit) \<times> Database" where
  "Database_set_schema safe self schema =
     (case Database_schema safe self of
        (cur, self1) \<Rightarrow>
          if is_consistent_with cur schema then
            (Inr (), self1\<lparr>db_schema := Some (bind_db schema self1)\<rparr>)
          else
            (case Database_schema safe self1 of
               (cur2, self2) \<Rightarrow>
                 (case dict_diff_str (to_dict cur2) (to_dict schema) of
                    (cols_added, cols_removed, cols_changed) \<Rightarrow>
                      (Inl (SchemaError_inconsistent cols_added cols_removed cols_changed), self2))))"

text \<open>
  A keyword value of \<open>create_page\<close>: already a \<open>PropertyValue\<close> (given by its object,
  of type \<open>'o\<close>), or a native value from which the property-value class of the column
  builds one. That constructor, \<open>col.type.prop_value\<close> of \<open>ultimate_notion.schema\<close>, is
  the parameter \<open>prop_value\<close>; it may raise.
\<close>

datatype 'o arg = Native native | Wrapped 'o

text \<open>
  The loop of \<open>create_page\<close> over \<open>kwargs.items()\<close>, filling \<open>schema_dct\<close>: look the column
  up, raise for a read-only one, build the value, store its object under the server-side
  column name.
\<close>

fun fill_schema_dct ::
  "(PropertyType \<Rightarrow> native \<Rightarrow> pyerror + 'o) \<Rightarrow> (string \<times> Column) list \<Rightarrow> (string \<times> 'o arg) list
     \<Rightarrow> (string \<times> 'o) list \<Rightarrow> pyerror + (string \<times> 'o) list" where
  "fill_schema_dct prop_value schema_kwargs [] schema_dct = Inr schema_dct"
| "fill_schema_dct prop_value schema_kwargs ((kwarg, value) # kwargs) schema_dct =
     (case map_of schema_kwargs kwarg of
        None \<Rightarrow> Inl (KeyError kwarg)
      | Some col \<Rightarrow>
          if readonly (col_type col) then Inl (ReadOnlyColumnError col)
          else
            (case (case value of
                     Wrapped obj \<Rightarrow> Inr obj
                   | Native v \<Rightarrow> prop_value (col_type col) v) of
               Inl e \<Rightarrow> Inl e
             | Inr obj \<Rightarrow>
                 fill_schema_dct prop_value schema_kwargs kwargs
                   (AList.update (col_name col) obj schema_dct)))"

text \<open>
  \<open>Database.create_page(**kwargs)\<close>; the keyword arguments are an association list
  with distinct keys, in call order. The result is the page the endpoint returns, the
  database (its schema cache may have been filled) and the world.
\<close>

definition create_page ::
  "(string \<Rightarrow> string) \<Rightarrow> (PropertyType \<Rightarrow> native \<Rightarrow> pyerror + 'o) \<Rightarrow> ('o, 'b, 'p, 'j) api
     \<Rightarrow> Database \<Rightarrow> (string \<times> 'o arg) list \<Rightarrow> 'j world
     \<Rightarrow> (pyerror + 'j) \<times> Database \<times> 'j world" where
  "create_page safe prop_value api self kwargs w =
     (case Database_schema safe self of
        (schema, self1) \<Rightarrow>
          (let schema_kwargs = dict_of_items (map (\<lambda>col. (attr_name col, col)) (get_cols schema)) in
           if \<not> set (map fst kwargs) \<subseteq> set (map fst schema_kwargs) then
             (Inl (SchemaError_kwargs (set (map fst kwargs) - set (map fst schema_kwargs))), self1, w)
           else
             (case fill_schema_dct prop_value schema_kwargs kwargs [] of
                Inl e \<Rightarrow> (Inl e, self1, w)
              | Inr schema_dct \<Rightarrow>
                  (case pages_create api (Parent_Database (db_id self1)) None
                          (Some (map (\<lambda>(k, obj). (k, Some obj)) schema_dct)) None w of
                     (res, w') \<Rightarrow> (res, self1, w')))))"

section \<open>Stand-ins for the collaborators\<close>

text \<open>
  Concrete runs need concrete collaborators. In \<open>echo_api\<close> every object is a string and
  its own serialisation, a reference is its own id, the server answers an append with the
  children it was sent and a page creation with a page.
\<close>

definition echo_api :: "(string, string, string, string) api" where
  "echo_api =
     \<lparr>prop_dict = (\<lambda>obj. obj), block_dict = (\<lambda>b. b), title_prop = (\<lambda>t. t),
      block_refresh = (\<lambda>b r. Inr r), object_reference_id = (\<lambda>p. Inr p), parse_obj = (\<lambda>d. Inr d),
      raw_children_append = (\<lambda>pid children. Inr \<lparr>results = Some children\<rparr>),
      raw_pages_create = (\<lambda>req. Inr ''page'')\<rparr>"

text \<open>
  \<open>echo_prop_value\<close> stands for the property-value constructors: it accepts every native
  value and yields a string.
\<close>

definition echo_prop_value :: "PropertyType \<Rightarrow> native \<Rightarrow> pyerror + string" where
  "echo_prop_value t v = Inr (case v of N_Str s \<Rightarrow> s | N_None \<Rightarrow> ''null'' | N_Num q \<Rightarrow> ''number'' | N_Bool b \<Rightarrow> ''bool'')"

text \<open>
  \<open>strict_prop_value\<close> is a constructor that rejects \<open>None\<close>, as \<open>Status.__compose__\<close>
  does, and accepts every other native value.
\<close>

definition strict_prop_value :: "PropertyType \<Rightarrow> native \<Rightarrow> pyerror + string" where
  "strict_prop_value t v =
     (if v = N_None then Inl (ValueError ''name cannot be None'') else echo_prop_value t v)"

text \<open>
  The schema and database of the \<open>article_db\<close> fixture of \<open>tests/conftest.py\<close>, and
  a database over three columns of the \<open>Tasklist\<close> schema of the same file, one of them
  a formula.
\<close>

definition Article :: PageSchema where
  "Article =
     \<lparr>schema_db_title = ''Articles'',
      cols = [\<lparr>col_name = ''Name'', col_type = T_title, attr_name = ''name''\<rparr>,
              \<lparr>col_name = ''Cost'', col_type = T_number, attr_name = ''cost''\<rparr>,
              \<lparr>col_name = ''Description'', col_type = T_rich_text, attr_name = ''desc''\<rparr>],
      bound_db = Some ''articles''\<rparr>"

definition article_db :: Database where
  "article_db =
     \<lparr>db_id = ''articles'', db_title = Some ''Articles'',
      db_properties = [(''Name'', T_title), (''Cost'', T_number), (''Description'', T_rich_text)],
      db_schema = Some Article\<rparr>"

definition Tasklist :: PageSchema where
  "Tasklist =
     \<lparr>schema_db_title = ''My Tasks'',
      cols = [\<lparr>col_name = ''Task'', col_type = T_title, attr_name = ''task''\<rparr>,
              \<lparr>col_name = ''Urgency'', col_type = T_formula, attr_name = ''urgency''\<rparr>,
              \<lparr>col_name = ''URL'', col_type = T_url, attr_name = ''url''\<rparr>],
      bound_db = Some ''tasks''\<rparr>"

definition task_db :: Database where
  "task_db =
     \<lparr>db_id = ''tasks'', db_title = Some ''My Tasks'',
      db_properties = [(''Task'', T_title), (''Urgency'', T_formula), (''URL'', T_url)],
      db_schema = Some Tasklist\<rparr>"

text \<open>
  A database with the server columns \<open>A\<close> and \<open>B\<close> and no schema cached yet, the schema
  its reflection yields when attribute names are the column names, and two user-declared
  schemas: one without \<open>B\<close>, one that only renames the attributes.
\<close>

definition ab_db :: Database where
  "ab_db =
     \<lparr>db_id = ''ab'', db_title = Some ''AB'',
      db_properties = [(''A'', T_title), (''B'', T_number)],
      db_schema = None\<rparr>"

definition AB :: PageSchema where
  "AB =
     \<lparr>schema_db_title = ''AB'',
      cols = [\<lparr>col_name = ''A'', col_type = T_title, attr_name = ''A''\<rparr>,
              \<lparr>col_name = ''B'', col_type = T_number, attr_name = ''B''\<rparr>],
      bound_db = Some ''ab''\<rparr>"

definition schema_without_B :: PageSchema where
  "schema_without_B =
     \<lparr>schema_db_title = ''AB'',
      cols = [\<lparr>col_name = ''A'', col_type = T_title, attr_name = ''first''\<rparr>],
      bound_db = None\<rparr>"

definition schema_renamed :: PageSchema where
  "schema_renamed =
     \<lparr>schema_db_title = ''AB'',
      cols = [\<lparr>col_name = ''A'', col_type = T_title, attr_name = ''first''\<rparr>,
              \<lparr>col_name = ''B'', col_type = T_number, attr_name = ''second''\<rparr>],
      bound_db = None\<rparr>"

section \<open>Status and SelectOne compare by option name\<close>

text \<open>
  C6. Two \<open>Status\<close> values that both carry an option compare equal exactly when the
  option names are equal, and so do two \<open>SelectOne\<close> values: the ids and colours of
  the options (and the property ids) never enter the result. In particular options with
  the same name and different colours or ids compare equal.
\<close>

theorem C6_equality_by_option_name:
  "Status_eq \<lparr>status_id = i1, status = Some \<lparr>nd_name = n1, nd_id = oi1, nd_color = c1\<rparr>\<rparr>
     (Other_Prop \<lparr>status_id = i2, status = Some \<lparr>nd_name = n2, nd_id = oi2, nd_color = c2\<rparr>\<rparr>)
     = Inr (n1 = n2)
   \<and> SelectOne_eq \<lparr>select_id = j1, select = Some \<lparr>sv_name = m1, sv_id = oj1, sv_color = d1\<rparr>\<rparr>
     (Other_Prop \<lparr>select_id = j2, select = Some \<lparr>sv_name = m2, sv_id = oj2, sv_color = d2\<rparr>\<rparr>)
     = Inr (m1 = m2)"
  by (auto simp: SelectOne_eq_str_def)

section \<open>MultiSelect: append, += and -=\<close>

lemma MultiSelect_contains_append1:
  "MultiSelect_contains (x\<lparr>multi_select := multi_select x @ [SelectValue_compose v c]\<rparr>) (Some v)"
  by (simp add: MultiSelect_contains_def SelectValue_compose_def)

text \<open>
  C10. When the name \<open>v\<close> is already among the options of \<open>x\<close>, \<open>x.append(v)\<close> returns
  normally and leaves \<open>x\<close> as it was (no second copy), whereas \<open>x += v\<close> raises the
  duplicate \<open>ValueError\<close>; \<open>x.append(None)\<close> raises \<open>ValueError\<close>.
\<close>

theorem C10_append_of_present_value_is_silent:
  assumes "MultiSelect_contains x (Some v)"
  shows "MultiSelect_append x [Some v] = (Inr (), x)
       \<and> MultiSelect_iadd x (Some v) = (Inl (ValueError (''Duplicate item: '' @ v)), x)
       \<and> MultiSelect_append x [None] = (Inl (ValueError ''None is an invalid value''), x)"
  using assms by (simp add: MultiSelect_iadd_def str_of_def)

theorem C10_append_of_present_value_witness:
  "MultiSelect_contains
     \<lparr>multi_select_id = None,
      multi_select = [\<lparr>sv_name = ''a'', sv_id = Some ''1'', sv_color = Some Blue\<rparr>]\<rparr> (Some ''a'')
   \<and> MultiSelect_append
       \<lparr>multi_select_id = None,
        multi_select = [\<lparr>sv_name = ''a'', sv_id = Some ''1'', sv_color = Some Blue\<rparr>]\<rparr> [Some ''a'']
     = (Inr (),
        \<lparr>multi_select_id = None,
         multi_select = [\<lparr>sv_name = ''a'', sv_id = Some ''1'', sv_color = Some Blue\<rparr>]\<rparr>)
   \<and> fst (MultiSelect_iadd
            \<lparr>multi_select_id = None,
             multi_select = [\<lparr>sv_name = ''a'', sv_id = Some ''1'', sv_color = Some Blue\<rparr>]\<rparr> (Some ''a''))
     = Inl (ValueError ''Duplicate item: a'')"
  using C10_append_of_present_value_is_silent
    [of "\<lparr>multi_select_id = None,
          multi_select = [\<lparr>sv_name = ''a'', sv_id = Some ''1'', sv_color = Some Blue\<rparr>]\<rparr>" "''a''"]
  by (simp add: MultiSelect_contains_def)

text \<open>On a \<open>MultiSelect\<close> the four behaviours of \<open>+=\<close> and \<open>-=\<close> hold.\<close>

lemma MultiSelect_iadd_absent:
  "\<not> MultiSelect_contains x (Some v) \<Longrightarrow>
     \<exists>x'. MultiSelect_iadd x (Some v) = (Inr (), x') \<and> MultiSelect_contains x' (Some v)"
  by (simp add: MultiSelect_iadd_def MultiSelect_contains_append1)

lemma MultiSelect_iadd_present:
  "MultiSelect_contains x v \<Longrightarrow>
     MultiSelect_iadd x v = (Inl (ValueError (''Duplicate item: '' @ str_of v)), x)"
  by (simp add: MultiSelect_iadd_def)

lemma MultiSelect_isub_present:
  "MultiSelect_contains x v \<Longrightarrow>
     \<exists>x'. MultiSelect_isub x v = (Inr (), x') \<and> \<not> MultiSelect_contains x' v"
  by (auto simp: MultiSelect_isub_def MultiSelect_contains_def MultiSelect_remove_def list_ex_iff)

lemma MultiSelect_isub_absent:
  "\<not> MultiSelect_contains x v \<Longrightarrow>
     MultiSelect_isub x v = (Inl (ValueError (''No such item: '' @ str_of v)), x)"
  by (simp add: MultiSelect_isub_def)

section \<open>Relation and Files: += and -=\<close>

lemma Relation_iadd_absent:
  "\<not> Relation_contains x p \<Longrightarrow>
     \<exists>x'. Relation_iadd x p = (Inr (), x') \<and> Relation_contains x' p"
  by (simp add: Relation_iadd_def Relation_contains_def Let_def)

lemma Relation_iadd_present:
  "Relation_contains x p \<Longrightarrow> Relation_iadd x p = (Inl (ValueError (''Duplicate item: '' @ p)), x)"
  by (simp add: Relation_iadd_def Relation_contains_def Let_def ObjectReference_compose_def)

text \<open>
  \<open>Relation.__isub__\<close> removes nothing: a page that is present meets the \<open>No such item\<close>
  branch, and for an absent one \<open>list.remove\<close> raises.
\<close>

lemma Relation_isub_always_raises: "\<exists>e. Relation_isub x p = (Inl e, x)"
  by (simp add: Relation_isub_def Let_def list_remove_def)

text \<open>
  C2, at a \<open>Relation\<close> that holds the page \<open>p1\<close>: \<open>p1 in x\<close> is true, and \<open>x -= p1\<close>
  raises \<open>ValueError("No such item: p1")\<close> and leaves \<open>x\<close> with \<open>p1\<close> still in it, where
  the claim has the page removed.
\<close>

theorem C2_relation_isub_rejects_present_page:
  "Relation_contains \<lparr>relation_id = None, relation = [\<lparr>ref_id = ''p1''\<rparr>], has_more = False\<rparr> ''p1''
   \<and> Relation_isub \<lparr>relation_id = None, relation = [\<lparr>ref_id = ''p1''\<rparr>], has_more = False\<rparr> ''p1''
     = (Inl (ValueError ''No such item: p1''),
        \<lparr>relation_id = None, relation = [\<lparr>ref_id = ''p1''\<rparr>], has_more = False\<rparr>)"
  by (simp add: Relation_isub_def Relation_contains_def ObjectReference_compose_def)

text \<open>
  \<open>Files.__isub__\<close> drops the first entry equal to the object, so of two equal entries
  (which \<open>Files.append\<close> allows) one stays.
\<close>

lemma Files_isub_keeps_second_copy:
  "Files_isub \<lparr>files_id = None, files = [f, f]\<rparr> f = (Inr (), \<lparr>files_id = None, files = [f]\<rparr>)
   \<and> Files_contains \<lparr>files_id = None, files = [f]\<rparr> (By_Object f)"
  by (simp add: Files_isub_def Files_remove_def list_remove_def)

lemma Files_iadd_absent:
  "\<not> Files_contains x (By_Object f) \<Longrightarrow>
     \<exists>x'. Files_iadd x f = (Inr (), x') \<and> Files_contains x' (By_Object f)"
  by (simp add: Files_iadd_def Files_append_def)

section \<open>Number: arithmetic on an empty value\<close>

text \<open>
  C7. On a \<open>Number\<close> whose \<open>number\<close> is \<open>None\<close>, \<open>float()\<close> and \<open>int()\<close> raise
  \<open>ValueError\<close>, and \<open>+\<close>, \<open>-\<close>, \<open>*\<close>, \<open>/\<close>, \<open>+=\<close> and \<open>-=\<close> raise for every other
  operand (a native number, \<open>None\<close>, or a \<open>Number\<close>): no operation returns a value.
  Division raises for every \<open>Number\<close>, empty or not.
\<close>

theorem C7_none_number_arithmetic_raises:
  "Number_float \<lparr>number_id = i, number = None\<rparr> = Inl (ValueError ''Cannot convert None to float'')
   \<and> Number_int \<lparr>number_id = i, number = None\<rparr> = Inl (ValueError ''Cannot convert None to int'')
   \<and> isl (Number_add wrap number_field \<lparr>number_id = i, number = None\<rparr> other)
   \<and> isl (Number_sub number_field \<lparr>number_id = i, number = None\<rparr> other)
   \<and> isl (Number_mul wrap number_field \<lparr>number_id = i, number = None\<rparr> other)
   \<and> isl (Number_truediv \<lparr>number_id = i, number = None\<rparr> other)
   \<and> isl (fst (Number_iadd \<lparr>number_id = i, number = None\<rparr> other))
   \<and> isl (fst (Number_isub \<lparr>number_id = i, number = None\<rparr> other))
   \<and> isl (Number_truediv n other)"
  by (auto simp: Number_float_def Number_int_def Number_add_def Number_sub_def Number_mul_def
        Number_truediv_def Number_iadd_def Number_isub_def py_arith_def Number_Value_def py_float_def
      split: number_operand.splits option.splits sum.splits)

section \<open>Round trips through compose and Value\<close>



section \<open>RichText: equality and hash\<close>

text \<open>
  C9. The rendered plain text of a \<open>RichText\<close> is \<open>str(self)\<close>. Two \<open>RichText\<close>
  values are equal exactly when their rendered plain texts are equal, a \<open>RichText\<close>
  equals a string exactly when its rendered plain text is that string, and values with
  equal rendered plain text have equal hashes; the spans enter only through the text
  they render.
\<close>

theorem C9_equality_and_hash_by_plain_text:
  "RichText_eq truthy a (Is_RichText b) = Some (RichText_str truthy a = RichText_str truthy b)
   \<and> RichText_eq truthy a (Is_Str s) = Some (RichText_str truthy a = s)
   \<and> (RichText_str truthy a = RichText_str truthy b \<longrightarrow>
        RichText_hash h truthy a = RichText_hash h truthy b)"
  by (simp add: RichText_hash_def)

theorem C9_equality_and_hash_by_plain_text_witness:
  "RichText_str (\<lambda>r. True) [Text \<lparr>plain_text = ''ab'', href = None\<rparr>]
     = RichText_str (\<lambda>r. True) [Text \<lparr>plain_text = ''a'', href = None\<rparr>, Mention \<lparr>plain_text = ''b'', href = Some ''u''\<rparr>]
   \<and> RichText_eq (\<lambda>r. True) [Text \<lparr>plain_text = ''ab'', href = None\<rparr>]
        (Is_RichText [Text \<lparr>plain_text = ''a'', href = None\<rparr>, Mention \<lparr>plain_text = ''b'', href = Some ''u''\<rparr>])
     = Some True
   \<and> RichText_hash (\<lambda>s. int (length s)) (\<lambda>r. True) [Text \<lparr>plain_text = ''ab'', href = None\<rparr>]
     = RichText_hash (\<lambda>s. int (length s)) (\<lambda>r. True) [Text \<lparr>plain_text = ''a'', href = None\<rparr>, Mention \<lparr>plain_text = ''b'', href = Some ''u''\<rparr>]"
  using C9_equality_and_hash_by_plain_text
    [of "\<lambda>r. True" "[Text \<lparr>plain_text = ''ab'', href = None\<rparr>]"
      "[Text \<lparr>plain_text = ''a'', href = None\<rparr>, Mention \<lparr>plain_text = ''b'', href = Some ''u''\<rparr>]" _ "\<lambda>s. int (length s)"]
  by (simp add: RichText_str_def to_plain_text_def)

section \<open>Appending children: a response of the wrong size\<close>

text \<open>
  When the parent resolves to an id and the transport answers the append with data that
  has no \<open>results\<close>, or whose \<open>results\<close> differ in length from the blocks passed to the
  call (a \<open>None\<close> among them counted), \<open>append\<close> returns the parent without raising,
  leaves every block as it was, and logs one warning after its info record.
\<close>

lemma append_size_mismatch_is_soft:
  assumes "object_reference_id api parent = Inr pid"
      and "raw_children_append api pid (map (block_dict api) (List.map_filter (\<lambda>b. b) blocks)) = Inr data"
      and "results data = None \<or> (\<exists>rs. results data = Some rs \<and> length rs \<noteq> length blocks)"
  shows "append api parent blocks w =
           (Inr parent, blocks,
            \<lparr>calls = calls w @ [Blocks_children_append pid (map (block_dict api) (List.map_filter (\<lambda>b. b) blocks))],
             log = log w @ [Info ''Appending %d blocks to %s ...'',
                            Warning (if results data = None then ''Unable to refresh results; not provided''
                                     else ''Unable to refresh results; size mismatch'')]\<rparr>)"
  using assms by (auto simp: append_def Let_def)

text \<open>
  The children sent are the blocks that are not \<open>None\<close>, but the size test counts
  every block passed. With \<open>None\<close> and one block passed, one child is sent; a normal
  response of one result is then reported as a size mismatch.
\<close>

lemma append_warns_on_matching_response_after_None:
  "append echo_api ''parent'' [None, Some ''b1''] \<lparr>calls = [], log = []\<rparr>
     = (Inr ''parent'', [None, Some ''b1''],
        \<lparr>calls = [Blocks_children_append ''parent'' [''b1'']],
         log = [Info ''Appending %d blocks to %s ...'', Warning ''Unable to refresh results; size mismatch'']\<rparr>)"
  by (simp add: echo_api_def append_def List.map_filter_def)

text \<open>
  C8, at \<open>append(parent, None, b1)\<close> and a response with two results: one child was
  sent, so the results differ in length from the blocks sent; the size test passes all
  the same (two blocks passed, two results), the refresh loop runs, and it raises
  \<open>AttributeError\<close> at the \<open>None\<close> block, where the claim has a warning and the parent
  returned.
\<close>

theorem C8_append_raises_at_None_block:
  "append (echo_api\<lparr>raw_children_append := (\<lambda>pid cs. Inr \<lparr>results = Some [''r1'', ''r2'']\<rparr>)\<rparr>) ''parent''
       [None, Some ''b1''] \<lparr>calls = [], log = []\<rparr>
     = (Inl (AttributeError ''NoneType object has no attribute refresh''), [None, Some ''b1''],
        \<lparr>calls = [Blocks_children_append ''parent'' [''b1'']],
         log = [Info ''Appending %d blocks to %s ...'']\<rparr>)"
  by (simp add: echo_api_def append_def List.map_filter_def)

section \<open>Dictionaries built from items\<close>

lemma foldl_update_keys:
  "fst ` set (foldl (\<lambda>d (k, v). AList.update k v d) acc xs) = fst ` set acc \<union> fst ` set xs"
  by (induction xs arbitrary: acc) (simp_all add: dom_update case_prod_beta Un_assoc)

lemma dict_of_items_keys: "fst ` set (dict_of_items xs) = fst ` set xs"
  by (simp add: dict_of_items_def foldl_update_keys)

lemma foldl_update_distinct:
  "distinct (map fst acc) \<Longrightarrow> distinct (map fst (foldl (\<lambda>d (k, v). AList.update k v d) acc xs))"
  by (induction xs arbitrary: acc) (auto simp: distinct_update split: prod.splits)

lemma dict_of_items_distinct: "distinct (map fst (dict_of_items xs))"
  by (simp add: dict_of_items_def foldl_update_distinct)

lemma dict_eq_iff:
  assumes "distinct (map fst a)" "distinct (map fst b)"
  shows "dict_eq a b \<longleftrightarrow> map_of a = map_of b"
proof
  assume eq: "dict_eq a b"
  show "map_of a = map_of b"
  proof
    fix k
    show "map_of a k = map_of b k"
    proof (cases "map_of a k")
      case None
      show ?thesis
      proof (cases "map_of b k")
        case None
        with \<open>map_of a k = None\<close> show ?thesis by simp
      next
        case (Some v)
        then have "(k, v) \<in> set b" by (rule map_of_SomeD)
        with eq have "map_of a k = Some v" by (auto simp: dict_eq_def list_all_iff)
        with None show ?thesis by simp
      qed
    next
      case (Some v)
      then have "(k, v) \<in> set a" by (rule map_of_SomeD)
      with eq have "map_of b k = Some v" by (auto simp: dict_eq_def list_all_iff)
      with Some show ?thesis by simp
    qed
  qed
next
  assume eq: "map_of a = map_of b"
  have "map_of b k = Some v" if "(k, v) \<in> set a" for k v
  proof -
    from that assms(1) have "map_of a k = Some v" by simp
    with eq show ?thesis by simp
  qed
  moreover have "map_of a k = Some v" if "(k, v) \<in> set b" for k v
  proof -
    from that assms(2) have "map_of b k = Some v" by simp
    with eq show ?thesis by simp
  qed
  ultimately show "dict_eq a b"
    by (auto simp: dict_eq_def list_all_iff)
qed

lemma to_dict_keys: "fst ` set (to_dict s) = col_name ` set (get_cols s)"
  by (simp add: to_dict_def dict_of_items_keys image_image)

lemma is_consistent_with_iff:
  "is_consistent_with a b \<longleftrightarrow> map_of (to_dict a) = map_of (to_dict b)"
  by (simp add: is_consistent_with_def dict_eq_iff to_dict_def dict_of_items_distinct)

lemma inconsistent_if_key_missing:
  assumes "B \<in> col_name ` set (get_cols cur)" "B \<notin> col_name ` set (get_cols u)"
  shows "\<not> is_consistent_with cur u"
proof
  assume "is_consistent_with cur u"
  then have "dom (map_of (to_dict cur)) = dom (map_of (to_dict u))"
    by (simp add: is_consistent_with_iff)
  then have "fst ` set (to_dict cur) = fst ` set (to_dict u)"
    by (simp add: dom_map_of_conv_image_fst)
  with assms show False by (simp add: to_dict_keys)
qed

lemma removed_lists_missing_key:
  assumes "B \<in> fst ` set d1" "B \<notin> fst ` set d2"
  shows "B \<in> set (fst (snd (dict_diff_str d1 d2)))"
proof -
  from assms(2) have "map_of d2 B = None" by (simp add: map_of_eq_None_iff)
  with assms(1) show ?thesis by (force simp: dict_diff_str_def)
qed

section \<open>Assigning a schema\<close>

text \<open>
  C4. Let the database hold a cached (reflected) schema. Assigning a schema that lacks a
  column key \<open>B\<close> of the cached one raises the \<open>SchemaError\<close> whose \<open>Columns removed\<close>
  enumeration contains \<open>B\<close>, and the database, its cached schema included, is
  unchanged. Assigning a schema with the same column-key-to-type mapping succeeds and
  caches the new schema, bound to the database.
\<close>

theorem C4_schema_assignment_is_checked:
  assumes "db_schema db = Some cur"
  shows "(B \<in> col_name ` set (get_cols cur) \<and> B \<notin> col_name ` set (get_cols u) \<longrightarrow>
            (\<exists>added removed changed.
               Database_set_schema safe db u = (Inl (SchemaError_inconsistent added removed changed), db)
               \<and> B \<in> set removed))
       \<and> (map_of (to_dict u) = map_of (to_dict cur) \<longrightarrow>
            Database_set_schema safe db u = (Inr (), db\<lparr>db_schema := Some (bind_db u db)\<rparr>))"
proof (intro conjI impI)
  assume h: "B \<in> col_name ` set (get_cols cur) \<and> B \<notin> col_name ` set (get_cols u)"
  then have inc: "\<not> is_consistent_with cur u" using inconsistent_if_key_missing [of B cur u] by simp
  obtain a r c where d: "dict_diff_str (to_dict cur) (to_dict u) = (a, r, c)"
    by (cases "dict_diff_str (to_dict cur) (to_dict u)") auto
  from h have "B \<in> set (fst (snd (dict_diff_str (to_dict cur) (to_dict u))))"
    by (intro removed_lists_missing_key) (simp_all add: to_dict_keys)
  with d have "B \<in> set r" by simp
  moreover from assms inc d
  have "Database_set_schema safe db u = (Inl (SchemaError_inconsistent a r c), db)"
    by (simp add: Database_set_schema_def Database_schema_def)
  ultimately show "\<exists>added removed changed.
      Database_set_schema safe db u = (Inl (SchemaError_inconsistent added removed changed), db)
      \<and> B \<in> set removed" by blast
next
  assume "map_of (to_dict u) = map_of (to_dict cur)"
  then have "is_consistent_with cur u" by (simp add: is_consistent_with_iff)
  with assms show "Database_set_schema safe db u = (Inr (), db\<lparr>db_schema := Some (bind_db u db)\<rparr>)"
    by (simp add: Database_set_schema_def Database_schema_def)
qed

lemma ab_db_reflects: "Database_schema (\<lambda>k. k) ab_db = (AB, ab_db\<lparr>db_schema := Some AB\<rparr>)"
  by (simp add: Database_schema_def ab_db_def reflect_schema_def dict_of_items_def bind_db_def
        Let_def AB_def)

lemma to_dict_AB: "to_dict AB = [(''A'', T_title), (''B'', T_number)]"
  by (simp add: to_dict_def get_cols_def AB_def dict_of_items_def)

lemma to_dict_without_B: "to_dict schema_without_B = [(''A'', T_title)]"
  by (simp add: to_dict_def get_cols_def schema_without_B_def dict_of_items_def)

lemma to_dict_renamed: "to_dict schema_renamed = [(''A'', T_title), (''B'', T_number)]"
  by (simp add: to_dict_def get_cols_def schema_renamed_def dict_of_items_def)

theorem C4_schema_assignment_is_checked_witness:
  "db_schema (snd (Database_schema (\<lambda>k. k) ab_db)) = Some AB
   \<and> ''B'' \<in> col_name ` set (get_cols AB)
   \<and> ''B'' \<notin> col_name ` set (get_cols schema_without_B)
   \<and> Database_set_schema (\<lambda>k. k) (snd (Database_schema (\<lambda>k. k) ab_db)) schema_without_B
       = (Inl (SchemaError_inconsistent [] [''B''] []), snd (Database_schema (\<lambda>k. k) ab_db))
   \<and> map_of (to_dict schema_renamed) = map_of (to_dict AB)
   \<and> fst (Database_set_schema (\<lambda>k. k) (snd (Database_schema (\<lambda>k. k) ab_db)) schema_renamed) = Inr ()
   \<and> db_schema (snd (Database_set_schema (\<lambda>k. k) (snd (Database_schema (\<lambda>k. k) ab_db)) schema_renamed))
       = Some (schema_renamed\<lparr>bound_db := Some ''ab''\<rparr>)"
proof -
  let ?db = "snd (Database_schema (\<lambda>k. k) ab_db)"
  have db: "?db = ab_db\<lparr>db_schema := Some AB\<rparr>" by (simp add: ab_db_reflects)
  have cached: "db_schema ?db = Some AB" by (simp add: db)
  have inB: "''B'' \<in> col_name ` set (get_cols AB)" by (simp add: get_cols_def AB_def)
  have notB: "''B'' \<notin> col_name ` set (get_cols schema_without_B)"
    by (simp add: get_cols_def schema_without_B_def)
  have same: "map_of (to_dict schema_renamed) = map_of (to_dict AB)"
    by (simp only: to_dict_AB to_dict_renamed)
  have diff: "dict_diff_str (to_dict AB) (to_dict schema_without_B) = ([], [''B''], [])"
    by (simp add: to_dict_AB to_dict_without_B dict_diff_str_def)
  have id: "db_id ?db = ''ab''" unfolding db by (simp add: ab_db_def)
  note thm1 = C4_schema_assignment_is_checked [OF cached, of "''B''" schema_without_B "\<lambda>k. k"]
  note thm2 = C4_schema_assignment_is_checked [OF cached, of "''B''" schema_renamed "\<lambda>k. k"]
  from thm1 inB notB obtain added removed changed where
    r: "Database_set_schema (\<lambda>k. k) ?db schema_without_B
          = (Inl (SchemaError_inconsistent added removed changed), ?db)" by blast
  have "Database_set_schema (\<lambda>k. k) ?db schema_without_B
          = (Inl (SchemaError_inconsistent [] [''B''] []), ?db)"
  proof -
    have "\<not> is_consistent_with AB schema_without_B"
      using inB notB by (rule inconsistent_if_key_missing)
    then have "Database_set_schema (\<lambda>k. k) (ab_db\<lparr>db_schema := Some AB\<rparr>) schema_without_B
          = (Inl (SchemaError_inconsistent [] [''B''] []), ab_db\<lparr>db_schema := Some AB\<rparr>)"
      by (simp add: Database_set_schema_def Database_schema_def diff)
    then show ?thesis by (simp only: db)
  qed
  moreover from thm2 same
  have "Database_set_schema (\<lambda>k. k) ?db schema_renamed
          = (Inr (), ?db\<lparr>db_schema := Some (bind_db schema_renamed ?db)\<rparr>)" by blast
  then have "fst (Database_set_schema (\<lambda>k. k) ?db schema_renamed) = Inr ()"
    and "db_schema (snd (Database_set_schema (\<lambda>k. k) ?db schema_renamed))
           = Some (schema_renamed\<lparr>bound_db := Some ''ab''\<rparr>)"
    by (simp_all add: bind_db_def id)
  ultimately show ?thesis using cached inB notB same by (intro conjI)
qed

section \<open>Creating a page: validation\<close>

text \<open>
  A keyword mapped to a read-only column makes the loop raise, whatever the constructors
  do; the keywords before the first such keyword decide which exception it is.
\<close>

lemma fill_readonly_some_error:
  assumes "\<exists>(k, v) \<in> set kwargs. \<exists>c. map_of sk k = Some c \<and> readonly (col_type c)"
  shows "isl (fill_schema_dct pv sk kwargs acc)"
  using assms
proof (induction kwargs arbitrary: acc)
  case Nil
  then show ?case by simp
next
  case (Cons kv kwargs)
  obtain k v where kv: "kv = (k, v)" by (cases kv)
  show ?case
  proof (cases "map_of sk k")
    case None
    with kv show ?thesis by simp
  next
    case (Some col)
    show ?thesis
    proof (cases "readonly (col_type col)")
      case True
      with Some kv show ?thesis by simp
    next
      case False
      with Some kv Cons.prems
      have rest: "\<exists>(k, v) \<in> set kwargs. \<exists>c. map_of sk k = Some c \<and> readonly (col_type c)"
        by auto
      from Some False kv Cons.IH [OF rest] show ?thesis
        by (simp split: arg.splits sum.splits)
    qed
  qed
qed

lemma fill_accepted_prefix:
  assumes "\<forall>(k, v) \<in> set pre. \<exists>c. map_of sk k = Some c \<and> \<not> readonly (col_type c)
             \<and> (\<forall>n. v = Native n \<longrightarrow> (\<exists>obj. pv (col_type c) n = Inr obj))"
  shows "\<exists>acc'. fill_schema_dct pv sk (pre @ rest) acc = fill_schema_dct pv sk rest acc'"
  using assms
proof (induction pre arbitrary: acc)
  case Nil
  then show ?case by auto
next
  case (Cons kv pre)
  obtain k v where kv: "kv = (k, v)" by (cases kv)
  from Cons.prems kv obtain c where c: "map_of sk k = Some c" and w: "\<not> readonly (col_type c)"
    and ok: "\<forall>n. v = Native n \<longrightarrow> (\<exists>obj. pv (col_type c) n = Inr obj)" by auto
  from Cons.prems have rest: "\<forall>(k, v) \<in> set pre. \<exists>c. map_of sk k = Some c \<and> \<not> readonly (col_type c)
             \<and> (\<forall>n. v = Native n \<longrightarrow> (\<exists>obj. pv (col_type c) n = Inr obj))" by simp
  obtain obj where obj: "(case v of Wrapped obj \<Rightarrow> Inr obj | Native n \<Rightarrow> pv (col_type c) n) = Inr obj"
  proof (cases v)
    case (Native n)
    with ok obtain obj where "pv (col_type c) n = Inr obj" by auto
    with Native that show ?thesis by simp
  next
    case (Wrapped obj)
    with that show ?thesis by simp
  qed
  from Cons.IH [OF rest, of "AList.update (col_name c) obj acc"]
  obtain acc' where "fill_schema_dct pv sk (pre @ rest) (AList.update (col_name c) obj acc)
                      = fill_schema_dct pv sk rest acc'" by blast
  with kv c w obj show ?case by auto
qed

lemma fill_first_readonly:
  assumes "\<forall>(k, v) \<in> set pre. \<exists>c. map_of sk k = Some c \<and> \<not> readonly (col_type c)
             \<and> (\<forall>n. v = Native n \<longrightarrow> (\<exists>obj. pv (col_type c) n = Inr obj))"
      and "map_of sk k = Some col" and "readonly (col_type col)"
  shows "fill_schema_dct pv sk (pre @ (k, v) # post) acc = Inl (ReadOnlyColumnError col)"
proof -
  from fill_accepted_prefix [OF assms(1), where rest = "(k, v) # post" and acc = acc]
  obtain acc' where "fill_schema_dct pv sk (pre @ (k, v) # post) acc
                      = fill_schema_dct pv sk ((k, v) # post) acc'" by blast
  with assms(2,3) show ?thesis by simp
qed

lemma fill_readonly_error:
  assumes "\<forall>(k, v) \<in> set kwargs. \<forall>c n. map_of sk k = Some c \<and> \<not> readonly (col_type c) \<and> v = Native n
             \<longrightarrow> (\<exists>obj. pv (col_type c) n = Inr obj)"
      and "\<forall>(k, v) \<in> set kwargs. map_of sk k \<noteq> None"
      and "\<exists>(k, v) \<in> set kwargs. \<exists>c. map_of sk k = Some c \<and> readonly (col_type c)"
  shows "\<exists>k col. k \<in> fst ` set kwargs \<and> map_of sk k = Some col \<and> readonly (col_type col)
           \<and> fill_schema_dct pv sk kwargs acc = Inl (ReadOnlyColumnError col)"
  using assms
proof (induction kwargs arbitrary: acc)
  case Nil
  then show ?case by simp
next
  case (Cons kv kwargs)
  obtain k v where kv: "kv = (k, v)" by (cases kv)
  from Cons.prems(2) kv obtain col where col: "map_of sk k = Some col" by auto
  show ?case
  proof (cases "readonly (col_type col)")
    case True
    with col kv show ?thesis by force
  next
    case False
    from Cons.prems(1) have p1: "\<forall>(k, v) \<in> set kwargs. \<forall>c n. map_of sk k = Some c
             \<and> \<not> readonly (col_type c) \<and> v = Native n
             \<longrightarrow> (\<exists>obj. pv (col_type c) n = Inr obj)" by simp
    from Cons.prems(2) have p2: "\<forall>(k, v) \<in> set kwargs. map_of sk k \<noteq> None" by simp
    from Cons.prems(3) col False kv
    have p3: "\<exists>(k, v) \<in> set kwargs. \<exists>c. map_of sk k = Some c \<and> readonly (col_type c)" by auto
    obtain obj where obj: "(case v of Wrapped obj \<Rightarrow> Inr obj | Native n \<Rightarrow> pv (col_type col) n) = Inr obj"
    proof (cases v)
      case (Native n)
      with Cons.prems(1) kv col False obtain obj where "pv (col_type col) n = Inr obj" by auto
      with Native that show ?thesis by simp
    next
      case (Wrapped obj)
      with that show ?thesis by simp
    qed
    from Cons.IH [OF p1 p2 p3, of "AList.update (col_name col) obj acc"]
    obtain k' col' where "k' \<in> fst ` set kwargs" "map_of sk k' = Some col'" "readonly (col_type col')"
      "fill_schema_dct pv sk kwargs (AList.update (col_name col) obj acc) = Inl (ReadOnlyColumnError col')"
      by blast
    with col False kv obj show ?thesis by auto
  qed
qed

lemma schema_kwargs_keys:
  "fst ` set (dict_of_items (map (\<lambda>col. (attr_name col, col)) cs)) = attr_name ` set cs"
proof -
  have "fst ` set (map (\<lambda>col. (attr_name col, col)) cs) = attr_name ` set cs"
    by (induction cs) simp_all
  then show ?thesis by (simp only: dict_of_items_keys)
qed

lemma create_page_unfold:
  assumes "Database_schema safe db = (s, db1)"
  shows "create_page safe pv api db kwargs w =
     (if \<not> fst ` set kwargs \<subseteq> attr_name ` set (get_cols s) then
        (Inl (SchemaError_kwargs (fst ` set kwargs - attr_name ` set (get_cols s))), db1, w)
      else
        (case fill_schema_dct pv (dict_of_items (map (\<lambda>col. (attr_name col, col)) (get_cols s))) kwargs [] of
           Inl e \<Rightarrow> (Inl e, db1, w)
         | Inr schema_dct \<Rightarrow>
             (case pages_create api (Parent_Database (db_id db1)) None
                     (Some (map (\<lambda>(k, obj). (k, Some obj)) schema_dct)) None w of
                (res, w') \<Rightarrow> (res, db1, w'))))"
  unfolding create_page_def assms Let_def prod.case set_map schema_kwargs_keys
  by (rule refl)

lemma task_db_schema: "Database_schema (\<lambda>k. k) task_db = (Tasklist, task_db)"
  by (simp add: Database_schema_def task_db_def)

lemma Tasklist_kwargs:
  "dict_of_items (map (\<lambda>col. (attr_name col, col)) (get_cols Tasklist)) =
     [(''task'', \<lparr>col_name = ''Task'', col_type = T_title, attr_name = ''task''\<rparr>),
      (''urgency'', \<lparr>col_name = ''Urgency'', col_type = T_formula, attr_name = ''urgency''\<rparr>),
      (''url'', \<lparr>col_name = ''URL'', col_type = T_url, attr_name = ''url''\<rparr>)]"
  by (simp add: get_cols_def Tasklist_def dict_of_items_def)

lemma Tasklist_attrs: "attr_name ` set (get_cols Tasklist) = {''task'', ''urgency'', ''url''}"
  by (simp add: get_cols_def Tasklist_def)

text \<open>
  C1, as stated, at two calls on a database whose attribute \<open>urgency\<close> is mapped to a
  formula column. With an unknown keyword next to \<open>urgency\<close> the call raises
  \<open>SchemaError\<close>, the test of the keywords coming first. With a keyword before
  \<open>urgency\<close> whose value the constructor of its column rejects, the call raises the
  exception of that constructor. Neither raises \<open>ReadOnlyColumnError\<close>.
\<close>

theorem C1_other_exception_precedes_read_only:
  "map_of (dict_of_items (map (\<lambda>col. (attr_name col, col)) (get_cols Tasklist))) ''urgency''
     = Some \<lparr>col_name = ''Urgency'', col_type = T_formula, attr_name = ''urgency''\<rparr>
   \<and> readonly T_formula
   \<and> create_page (\<lambda>k. k) echo_prop_value echo_api task_db
        [(''urgency'', Native (N_Str ''now'')), (''bogus'', Native N_None)] \<lparr>calls = [], log = []\<rparr>
       = (Inl (SchemaError_kwargs {''bogus''}), task_db, \<lparr>calls = [], log = []\<rparr>)
   \<and> create_page (\<lambda>k. k) strict_prop_value echo_api task_db
        [(''task'', Native N_None), (''urgency'', Native (N_Str ''now''))] \<lparr>calls = [], log = []\<rparr>
       = (Inl (ValueError ''name cannot be None''), task_db, \<lparr>calls = [], log = []\<rparr>)"
proof -
  have a: "map_of (dict_of_items (map (\<lambda>col. (attr_name col, col)) (get_cols Tasklist))) ''urgency''
     = Some \<lparr>col_name = ''Urgency'', col_type = T_formula, attr_name = ''urgency''\<rparr>"
    by (simp add: Tasklist_kwargs)
  have b: "readonly T_formula" by simp
  have c: "create_page (\<lambda>k. k) echo_prop_value echo_api task_db
        [(''urgency'', Native (N_Str ''now'')), (''bogus'', Native N_None)] \<lparr>calls = [], log = []\<rparr>
       = (Inl (SchemaError_kwargs {''bogus''}), task_db, \<lparr>calls = [], log = []\<rparr>)"
    by (simp add: create_page_unfold [OF task_db_schema] Tasklist_attrs)
  have f: "fill_schema_dct strict_prop_value
             (dict_of_items (map (\<lambda>col. (attr_name col, col)) (get_cols Tasklist)))
             [(''task'', Native N_None), (''urgency'', Native (N_Str ''now''))] []
           = Inl (ValueError ''name cannot be None'')"
    by (simp add: Tasklist_kwargs strict_prop_value_def)
  have d: "create_page (\<lambda>k. k) strict_prop_value echo_api task_db
        [(''task'', Native N_None), (''urgency'', Native (N_Str ''now''))] \<lparr>calls = [], log = []\<rparr>
       = (Inl (ValueError ''name cannot be None''), task_db, \<lparr>calls = [], log = []\<rparr>)"
    by (simp add: create_page_unfold [OF task_db_schema] Tasklist_attrs f del: fill_schema_dct.simps)
  show ?thesis by (intro conjI) (rule a b c d)+
qed

text \<open>
  C1, amended. Let \<open>s\<close> be the schema of the database and \<open>db1\<close> the database after
  reading it. A call with a keyword outside the attribute names of \<open>s\<close> raises
  \<open>SchemaError\<close> naming the unknown keywords. A call whose keywords are all attributes
  of \<open>s\<close>, one of them mapped to a read-only column, raises an exception. It raises
  \<open>ReadOnlyColumnError\<close> for the column of the first such keyword when every keyword
  before it is given a property value or a native value that the constructor of its
  column accepts; the value of the read-only keyword itself and the keywords after it
  play no part. In each case the world comes back as it was: no call reached the
  transport and nothing was logged.
\<close>

theorem C1_create_page_validates_before_transport:
  assumes "Database_schema safe db = (s, db1)"
  shows "(\<not> fst ` set kwargs \<subseteq> attr_name ` set (get_cols s) \<longrightarrow>
            create_page safe pv api db kwargs w =
              (Inl (SchemaError_kwargs (fst ` set kwargs - attr_name ` set (get_cols s))), db1, w))
       \<and> (fst ` set kwargs \<subseteq> attr_name ` set (get_cols s)
           \<and> (\<exists>(k, v) \<in> set kwargs. \<exists>c.
                 map_of (dict_of_items (map (\<lambda>col. (attr_name col, col)) (get_cols s))) k = Some c
                 \<and> readonly (col_type c)) \<longrightarrow>
            (\<exists>e. create_page safe pv api db kwargs w = (Inl e, db1, w)))
       \<and> (fst ` set (pre @ (k, v) # post) \<subseteq> attr_name ` set (get_cols s)
           \<and> map_of (dict_of_items (map (\<lambda>col. (attr_name col, col)) (get_cols s))) k = Some col
           \<and> readonly (col_type col)
           \<and> (\<forall>(k', v') \<in> set pre. \<exists>c.
                 map_of (dict_of_items (map (\<lambda>col. (attr_name col, col)) (get_cols s))) k' = Some c
                 \<and> \<not> readonly (col_type c)
                 \<and> (\<forall>n. v' = Native n \<longrightarrow> (\<exists>obj. pv (col_type c) n = Inr obj))) \<longrightarrow>
            create_page safe pv api db (pre @ (k, v) # post) w = (Inl (ReadOnlyColumnError col), db1, w))
       \<and> (fst ` set kwargs \<subseteq> attr_name ` set (get_cols s)
           \<and> (\<exists>(k, v) \<in> set kwargs. \<exists>c.
                 map_of (dict_of_items (map (\<lambda>col. (attr_name col, col)) (get_cols s))) k = Some c
                 \<and> readonly (col_type c))
           \<and> (\<forall>(k, v) \<in> set kwargs. \<forall>c n.
                 map_of (dict_of_items (map (\<lambda>col. (attr_name col, col)) (get_cols s))) k = Some c
                 \<and> \<not> readonly (col_type c) \<and> v = Native n
                 \<longrightarrow> (\<exists>obj. pv (col_type c) n = Inr obj)) \<longrightarrow>
            (\<exists>k col. k \<in> fst ` set kwargs
               \<and> map_of (dict_of_items (map (\<lambda>col. (attr_name col, col)) (get_cols s))) k = Some col
               \<and> readonly (col_type col)
               \<and> create_page safe pv api db kwargs w = (Inl (ReadOnlyColumnError col), db1, w)))"
    (is "?A \<and> ?B \<and> ?C \<and> ?D")
proof -
  let ?sk = "dict_of_items (map (\<lambda>col. (attr_name col, col)) (get_cols s))"
  note unfold = create_page_unfold [OF assms, of pv api _ w]
  have A: ?A
  proof
    assume "\<not> fst ` set kwargs \<subseteq> attr_name ` set (get_cols s)"
    then show "create_page safe pv api db kwargs w =
              (Inl (SchemaError_kwargs (fst ` set kwargs - attr_name ` set (get_cols s))), db1, w)"
      by (simp add: unfold)
  qed
  have B: ?B
  proof
    assume h: "fst ` set kwargs \<subseteq> attr_name ` set (get_cols s)
           \<and> (\<exists>(k, v) \<in> set kwargs. \<exists>c. map_of ?sk k = Some c \<and> readonly (col_type c))"
    then have ro: "\<exists>(k, v) \<in> set kwargs. \<exists>c. map_of ?sk k = Some c \<and> readonly (col_type c)" ..
    from fill_readonly_some_error [OF ro, of pv "[]"]
    obtain e where e: "fill_schema_dct pv ?sk kwargs [] = Inl e"
      by (cases "fill_schema_dct pv ?sk kwargs []") simp_all
    from h have sub: "fst ` set kwargs \<subseteq> attr_name ` set (get_cols s)" ..
    have "create_page safe pv api db kwargs w = (Inl e, db1, w)"
      by (simp add: unfold sub e)
    then show "\<exists>e. create_page safe pv api db kwargs w = (Inl e, db1, w)" ..
  qed
  have C: ?C
  proof
    assume h: "fst ` set (pre @ (k, v) # post) \<subseteq> attr_name ` set (get_cols s)
           \<and> map_of ?sk k = Some col
           \<and> readonly (col_type col)
           \<and> (\<forall>(k', v') \<in> set pre. \<exists>c. map_of ?sk k' = Some c \<and> \<not> readonly (col_type c)
                 \<and> (\<forall>n. v' = Native n \<longrightarrow> (\<exists>obj. pv (col_type c) n = Inr obj)))"
    from h have sub: "fst ` set (pre @ (k, v) # post) \<subseteq> attr_name ` set (get_cols s)"
      by (rule conjunct1)
    from h have m: "map_of ?sk k = Some col" by (rule conjunct1 [OF conjunct2])
    from h have r: "readonly (col_type col)" by (rule conjunct1 [OF conjunct2 [OF conjunct2]])
    from h have ok: "\<forall>(k', v') \<in> set pre. \<exists>c. map_of ?sk k' = Some c \<and> \<not> readonly (col_type c)
                 \<and> (\<forall>n. v' = Native n \<longrightarrow> (\<exists>obj. pv (col_type c) n = Inr obj))"
      by (rule conjunct2 [OF conjunct2 [OF conjunct2]])
    have f: "fill_schema_dct pv ?sk (pre @ (k, v) # post) [] = Inl (ReadOnlyColumnError col)"
      by (rule fill_first_readonly [OF ok m r])
    show "create_page safe pv api db (pre @ (k, v) # post) w = (Inl (ReadOnlyColumnError col), db1, w)"
      by (simp only: unfold sub f not_True_eq_False if_False sum.case)
  qed
  have D: ?D
  proof
    assume h: "fst ` set kwargs \<subseteq> attr_name ` set (get_cols s)
           \<and> (\<exists>(k, v) \<in> set kwargs. \<exists>c. map_of ?sk k = Some c \<and> readonly (col_type c))
           \<and> (\<forall>(k, v) \<in> set kwargs. \<forall>c n. map_of ?sk k = Some c \<and> \<not> readonly (col_type c)
                 \<and> v = Native n \<longrightarrow> (\<exists>obj. pv (col_type c) n = Inr obj))"
    from h have sub: "fst ` set kwargs \<subseteq> attr_name ` set (get_cols s)"
      by (rule conjunct1)
    from h have ro: "\<exists>(k, v) \<in> set kwargs. \<exists>c. map_of ?sk k = Some c \<and> readonly (col_type c)"
      by (rule conjunct1 [OF conjunct2])
    from h have ok: "\<forall>(k, v) \<in> set kwargs. \<forall>c n. map_of ?sk k = Some c \<and> \<not> readonly (col_type c)
                 \<and> v = Native n \<longrightarrow> (\<exists>obj. pv (col_type c) n = Inr obj)"
      by (rule conjunct2 [OF conjunct2])
    have "map_of ?sk k \<noteq> None" if kv: "(k, v) \<in> set kwargs" for k v
    proof
      assume none: "map_of ?sk k = None"
      from kv have "k \<in> fst ` set kwargs" by force
      with sub have "k \<in> attr_name ` set (get_cols s)" by blast
      then have "k \<in> fst ` set ?sk" by (simp only: schema_kwargs_keys)
      with none show False by (simp add: map_of_eq_None_iff)
    qed
    then have known: "\<forall>(k, v) \<in> set kwargs. map_of ?sk k \<noteq> None"
      by blast
    from fill_readonly_error [OF ok known ro, of "[]"]
    obtain k col where k: "k \<in> fst ` set kwargs" and m: "map_of ?sk k = Some col"
      and r: "readonly (col_type col)"
      and f: "fill_schema_dct pv ?sk kwargs [] = Inl (ReadOnlyColumnError col)" by blast
    have "create_page safe pv api db kwargs w = (Inl (ReadOnlyColumnError col), db1, w)"
      by (simp add: unfold sub f)
    with k m r show "\<exists>k col. k \<in> fst ` set kwargs \<and> map_of ?sk k = Some col \<and> readonly (col_type col)
            \<and> create_page safe pv api db kwargs w = (Inl (ReadOnlyColumnError col), db1, w)"
      by blast
  qed
  from A B C D show ?thesis by (intro conjI)
qed

theorem C1_create_page_validates_before_transport_witness:
  "Database_schema (\<lambda>k. k) task_db = (Tasklist, task_db)
   \<and> \<not> fst ` set ([(''task'', Native (N_Str ''Plan'')), (''bogus'', Native N_None)] :: (string \<times> string arg) list)
         \<subseteq> attr_name ` set (get_cols Tasklist)
   \<and> create_page (\<lambda>k. k) strict_prop_value echo_api task_db
        [(''task'', Native (N_Str ''Plan'')), (''bogus'', Native N_None)] \<lparr>calls = [], log = []\<rparr>
       = (Inl (SchemaError_kwargs {''bogus''}), task_db, \<lparr>calls = [], log = []\<rparr>)
   \<and> fst ` set ([(''task'', Native (N_Str ''Plan'')), (''urgency'', Native N_None), (''url'', Native N_None)]
                  :: (string \<times> string arg) list)
         \<subseteq> attr_name ` set (get_cols Tasklist)
   \<and> strict_prop_value T_title (N_Str ''Plan'') = Inr ''Plan''
   \<and> create_page (\<lambda>k. k) strict_prop_value echo_api task_db
        [(''task'', Native (N_Str ''Plan'')), (''urgency'', Native N_None), (''url'', Native N_None)]
        \<lparr>calls = [], log = []\<rparr>
       = (Inl (ReadOnlyColumnError \<lparr>col_name = ''Urgency'', col_type = T_formula, attr_name = ''urgency''\<rparr>),
          task_db, \<lparr>calls = [], log = []\<rparr>)"
proof -
  let ?k1 = "[(''task'', Native (N_Str ''Plan'')), (''bogus'', Native N_None)] :: (string \<times> string arg) list"
  let ?pre = "[(''task'', Native (N_Str ''Plan''))] :: (string \<times> string arg) list"
  let ?post = "[(''url'', Native N_None)] :: (string \<times> string arg) list"
  let ?w = "\<lparr>calls = [], log = []\<rparr> :: string world"
  let ?sk = "dict_of_items (map (\<lambda>col. (attr_name col, col)) (get_cols Tasklist))"
  let ?col = "\<lparr>col_name = ''Urgency'', col_type = T_formula, attr_name = ''urgency''\<rparr>"
  note thm1 = C1_create_page_validates_before_transport [OF task_db_schema, of ?k1 strict_prop_value echo_api ?w]
  note thm2 = C1_create_page_validates_before_transport [OF task_db_schema, where pv = strict_prop_value and api = echo_api and w = ?w
      and pre = ?pre and k = "''urgency''" and v = "Native N_None" and post = ?post and col = ?col]
  have n1: "\<not> fst ` set ?k1 \<subseteq> attr_name ` set (get_cols Tasklist)"
    by (simp add: Tasklist_attrs)
  have d1: "fst ` set ?k1 - attr_name ` set (get_cols Tasklist) = {''bogus''}"
    by (simp add: Tasklist_attrs)
  have r1: "create_page (\<lambda>k. k) strict_prop_value echo_api task_db ?k1 ?w
       = (Inl (SchemaError_kwargs (fst ` set ?k1 - attr_name ` set (get_cols Tasklist))), task_db, ?w)"
    by (rule thm1 [THEN conjunct1, THEN mp, OF n1])
  have s2: "fst ` set (?pre @ (''urgency'', Native N_None) # ?post) \<subseteq> attr_name ` set (get_cols Tasklist)"
    by (simp add: Tasklist_attrs)
  have m: "map_of ?sk ''urgency'' = Some ?col" by (simp add: Tasklist_kwargs)
  have r: "readonly (col_type ?col)" by simp
  have t: "strict_prop_value T_title (N_Str ''Plan'') = Inr ''Plan''"
    by (simp add: strict_prop_value_def echo_prop_value_def)
  have ok: "\<forall>(k', v') \<in> set ?pre. \<exists>c. map_of ?sk k' = Some c \<and> \<not> readonly (col_type c)
              \<and> (\<forall>n. v' = Native n \<longrightarrow> (\<exists>obj. strict_prop_value (col_type c) n = Inr obj))"
    by (simp add: Tasklist_kwargs t)
  have r2: "create_page (\<lambda>k. k) strict_prop_value echo_api task_db
              (?pre @ (''urgency'', Native N_None) # ?post) ?w
       = (Inl (ReadOnlyColumnError ?col), task_db, ?w)"
    by (rule thm2 [THEN conjunct2, THEN conjunct2, THEN conjunct1, THEN mp,
          OF conjI [OF s2 conjI [OF m conjI [OF r ok]]]])
  from r1 d1 have r1': "create_page (\<lambda>k. k) strict_prop_value echo_api task_db ?k1 ?w
       = (Inl (SchemaError_kwargs {''bogus''}), task_db, ?w)" by (simp only:)
  from s2 have s2': "fst ` set ([(''task'', Native (N_Str ''Plan'')), (''urgency'', Native N_None), (''url'', Native N_None)]
                  :: (string \<times> string arg) list) \<subseteq> attr_name ` set (get_cols Tasklist)"
    by simp
  from r2 have r2': "create_page (\<lambda>k. k) strict_prop_value echo_api task_db
        [(''task'', Native (N_Str ''Plan'')), (''urgency'', Native N_None), (''url'', Native N_None)] ?w
       = (Inl (ReadOnlyColumnError ?col), task_db, ?w)" by simp
  show ?thesis by (intro conjI) (rule task_db_schema n1 r1' s2' t r2')+
qed

section \<open>Creating a page: the payload\<close>

lemma pages_create_world:
  "snd (pages_create api (Parent_Database i) None (Some ps) None w) =
     \<lparr>calls = calls w @ [Pages_create
         \<lparr>req_parent = DatabaseRef i,
          req_properties = map (\<lambda>(name, prop). (name, map_option (prop_dict api) prop)) ps,
          req_children = None\<rparr>],
      log = log w @ [Info ''Creating page :: %s => %s'']\<rparr>"
  by (simp add: pages_create_def Let_def split: sum.splits)

text \<open>
  C5. For a database whose schema has the columns \<open>Name\<close> (title), \<open>Cost\<close> (number) and
  \<open>Description\<close> (rich text) under the attributes \<open>name\<close>, \<open>cost\<close> and a third one,
  \<open>create_page(name="Widget", cost=9.99)\<close> makes one call to the transport, whose
  \<open>properties\<close> are exactly the two entries keyed \<open>Name\<close> and \<open>Cost\<close>, holding the
  values built for them; there is no \<open>Description\<close> entry.
\<close>

theorem C5_create_page_payload_has_given_columns:
  assumes "db_schema db = Some s"
    and "get_cols s =
           [\<lparr>col_name = ''Name'', col_type = T_title, attr_name = ''name''\<rparr>,
            \<lparr>col_name = ''Cost'', col_type = T_number, attr_name = ''cost''\<rparr>,
            \<lparr>col_name = ''Description'', col_type = T_rich_text, attr_name = d\<rparr>]"
    and "d \<noteq> ''name''" and "d \<noteq> ''cost''"
    and "pv T_title (N_Str ''Widget'') = Inr t"
    and "pv T_number (N_Num (999 / 100)) = Inr c"
  shows "calls (snd (snd (create_page safe pv api db
           [(''name'', Native (N_Str ''Widget'')), (''cost'', Native (N_Num (999 / 100)))] w)))
         = calls w @ [Pages_create
             \<lparr>req_parent = DatabaseRef (db_id db),
              req_properties = [(''Name'', Some (prop_dict api t)), (''Cost'', Some (prop_dict api c))],
              req_children = None\<rparr>]"
proof -
  let ?kwargs = "[(''name'', Native (N_Str ''Widget'')), (''cost'', Native (N_Num (999 / 100)))]"
  from assms(1) have sch: "Database_schema safe db = (s, db)"
    by (simp add: Database_schema_def)
  have sk: "dict_of_items (map (\<lambda>col. (attr_name col, col)) (get_cols s)) =
      [(''name'', \<lparr>col_name = ''Name'', col_type = T_title, attr_name = ''name''\<rparr>),
       (''cost'', \<lparr>col_name = ''Cost'', col_type = T_number, attr_name = ''cost''\<rparr>),
       (d, \<lparr>col_name = ''Description'', col_type = T_rich_text, attr_name = d\<rparr>)]"
    using assms(3,4) by (simp add: assms(2) dict_of_items_def)
  have sub: "fst ` set ?kwargs \<subseteq> attr_name ` set (get_cols s)"
    by (simp add: assms(2))
  have fill: "fill_schema_dct pv
      [(''name'', \<lparr>col_name = ''Name'', col_type = T_title, attr_name = ''name''\<rparr>),
       (''cost'', \<lparr>col_name = ''Cost'', col_type = T_number, attr_name = ''cost''\<rparr>),
       (d, \<lparr>col_name = ''Description'', col_type = T_rich_text, attr_name = d\<rparr>)]
      ?kwargs [] = Inr [(''Name'', t), (''Cost'', c)]"
    by (simp add: assms(5,6))
  have "create_page safe pv api db ?kwargs w =
      (case pages_create api (Parent_Database (db_id db)) None
              (Some [(''Name'', Some t), (''Cost'', Some c)]) None w of
         (res, w') \<Rightarrow> (res, db, w'))"
    by (simp only: create_page_unfold [OF sch] sub not_True_eq_False if_False sk fill sum.case list.map prod.case)
  then have "snd (snd (create_page safe pv api db ?kwargs w)) =
      snd (pages_create api (Parent_Database (db_id db)) None
              (Some [(''Name'', Some t), (''Cost'', Some c)]) None w)"
    by (simp add: case_prod_beta)
  then show ?thesis by (simp add: pages_create_world)
qed

lemma Article_cached: "db_schema article_db = Some Article"
  by (simp add: article_db_def)

theorem C5_create_page_payload_has_given_columns_witness:
  "db_schema article_db = Some Article
   \<and> echo_prop_value T_title (N_Str ''Widget'') = Inr ''Widget''
   \<and> echo_prop_value T_number (N_Num (999 / 100)) = Inr ''number''
   \<and> calls (snd (snd (create_page (\<lambda>k. k) echo_prop_value echo_api article_db
        [(''name'', Native (N_Str ''Widget'')), (''cost'', Native (N_Num (999 / 100)))]
        \<lparr>calls = [], log = []\<rparr>)))
     = [Pages_create
          \<lparr>req_parent = DatabaseRef ''articles'',
           req_properties = [(''Name'', Some ''Widget''), (''Cost'', Some ''number'')],
           req_children = None\<rparr>]"
proof -
  have cols: "get_cols Article =
           [\<lparr>col_name = ''Name'', col_type = T_title, attr_name = ''name''\<rparr>,
            \<lparr>col_name = ''Cost'', col_type = T_number, attr_name = ''cost''\<rparr>,
            \<lparr>col_name = ''Description'', col_type = T_rich_text, attr_name = ''desc''\<rparr>]"
    by (simp add: get_cols_def Article_def)
  have t: "echo_prop_value T_title (N_Str ''Widget'') = Inr ''Widget''"
    by (simp add: echo_prop_value_def)
  have c: "echo_prop_value T_number (N_Num (999 / 100)) = Inr ''number''"
    by (simp add: echo_prop_value_def)
  have d1: "''desc'' \<noteq> ''name''" by simp
  have d2: "''desc'' \<noteq> ''cost''" by simp
  have id: "db_id article_db = ''articles''" by (simp add: article_db_def)
  have pd: "prop_dict echo_api = (\<lambda>obj. obj)" by (simp add: echo_api_def)
  from C5_create_page_payload_has_given_columns [OF Article_cached cols d1 d2 t c, of "\<lambda>k. k" echo_api "\<lparr>calls = [], log = []\<rparr>"]
  show ?thesis by (simp add: Article_cached t c id pd)
qed

end
